theory Spec2Isabelle
  imports Complex_Main
begin

section \<open>Values of the C++ type double\<close>

text \<open>
  The library computes in \<^verbatim>\<open>double\<close>. A value is a finite number, one of the two
  infinities, or NaN. Finite arithmetic is exact here: rounding, overflow of a finite result to
  an infinity and the sign of zero are abstracted (a zero divisor counts as +0). The special
  values follow IEEE 754: NaN is absorbing, \<open>inf - inf\<close>, \<open>0 * inf\<close>, \<open>0 / 0\<close> and
  \<open>inf / inf\<close> are NaN, \<open>x / 0\<close> is an infinity for \<open>x \<noteq> 0\<close>, and every comparison with
  NaN is false.
\<close>

datatype double = is_Fin: Fin (the_real: real) | PInf | NInf | NaN

instantiation double :: "{plus, uminus, minus, times, inverse, ord}"
begin

fun uminus_double :: "double \<Rightarrow> double" where
  "uminus_double (Fin a) = Fin (- a)"
| "uminus_double PInf = NInf"
| "uminus_double NInf = PInf"
| "uminus_double NaN = NaN"

fun plus_double :: "double \<Rightarrow> double \<Rightarrow> double" where
  "plus_double NaN y = NaN"
| "plus_double x NaN = NaN"
| "plus_double (Fin a) (Fin b) = Fin (a + b)"
| "plus_double PInf NInf = NaN"
| "plus_double NInf PInf = NaN"
| "plus_double PInf y = PInf"
| "plus_double NInf y = NInf"
| "plus_double (Fin a) y = y"

definition minus_double :: "double \<Rightarrow> double \<Rightarrow> double" where
  "minus_double x y = x + (- y)"

fun times_double :: "double \<Rightarrow> double \<Rightarrow> double" where
  "times_double NaN y = NaN"
| "times_double x NaN = NaN"
| "times_double (Fin a) (Fin b) = Fin (a * b)"
| "times_double (Fin a) PInf = (if a = 0 then NaN else if 0 < a then PInf else NInf)"
| "times_double (Fin a) NInf = (if a = 0 then NaN else if 0 < a then NInf else PInf)"
| "times_double PInf (Fin b) = (if b = 0 then NaN else if 0 < b then PInf else NInf)"
| "times_double NInf (Fin b) = (if b = 0 then NaN else if 0 < b then NInf else PInf)"
| "times_double PInf PInf = PInf"
| "times_double PInf NInf = NInf"
| "times_double NInf PInf = NInf"
| "times_double NInf NInf = PInf"

fun divide_double :: "double \<Rightarrow> double \<Rightarrow> double" where
  "divide_double NaN y = NaN"
| "divide_double x NaN = NaN"
| "divide_double (Fin a) (Fin b) =
     (if b = 0 then (if a = 0 then NaN else if 0 < a then PInf else NInf) else Fin (a / b))"
| "divide_double (Fin a) y = Fin 0"
| "divide_double PInf (Fin b) = (if 0 \<le> b then PInf else NInf)"
| "divide_double NInf (Fin b) = (if 0 \<le> b then NInf else PInf)"
| "divide_double x y = NaN"

definition inverse_double :: "double \<Rightarrow> double" where
  "inverse_double x = divide (Fin 1) x"

fun less_double :: "double \<Rightarrow> double \<Rightarrow> bool" where
  "less_double NaN y = False"
| "less_double x NaN = False"
| "less_double (Fin a) (Fin b) = (a < b)"
| "less_double x NInf = False"
| "less_double PInf y = False"
| "less_double x y = True"

fun less_eq_double :: "double \<Rightarrow> double \<Rightarrow> bool" where
  "less_eq_double NaN y = False"
| "less_eq_double x NaN = False"
| "less_eq_double (Fin a) (Fin b) = (a \<le> b)"
| "less_eq_double NInf y = True"
| "less_eq_double x PInf = True"
| "less_eq_double x y = False"

instance ..

end

text \<open>The functions of \<^verbatim>\<open>cmath\<close> the sources call, with the special values of C Annex F.\<close>

fun d_exp :: "double \<Rightarrow> double" where
  "d_exp (Fin a) = Fin (exp a)"
| "d_exp PInf = PInf"
| "d_exp NInf = Fin 0"
| "d_exp NaN = NaN"

fun d_cosh :: "double \<Rightarrow> double" where
  "d_cosh (Fin a) = Fin (cosh a)"
| "d_cosh PInf = PInf"
| "d_cosh NInf = PInf"
| "d_cosh NaN = NaN"

fun d_sinh :: "double \<Rightarrow> double" where
  "d_sinh (Fin a) = Fin (sinh a)"
| "d_sinh PInf = PInf"
| "d_sinh NInf = NInf"
| "d_sinh NaN = NaN"

fun d_cos :: "double \<Rightarrow> double" where
  "d_cos (Fin a) = Fin (cos a)"
| "d_cos x = NaN"

fun d_sin :: "double \<Rightarrow> double" where
  "d_sin (Fin a) = Fin (sin a)"
| "d_sin x = NaN"

fun d_sqrt :: "double \<Rightarrow> double" where
  "d_sqrt (Fin a) = (if a < 0 then NaN else Fin (sqrt a))"
| "d_sqrt PInf = PInf"
| "d_sqrt x = NaN"

fun d_fabs :: "double \<Rightarrow> double" where
  "d_fabs (Fin a) = Fin \<bar>a\<bar>"
| "d_fabs PInf = PInf"
| "d_fabs NInf = PInf"
| "d_fabs NaN = NaN"

section \<open>Functions.h: the convolution formulas\<close>

text \<open>
  Modelled from the spec: \<^verbatim>\<open>medusa/Faddeeva.h\<close> is not among the sources. Section 4.1 of
  the specification gives its contract: \<open>erf\<close> and \<open>erfc\<close>, the error function and its
  complement. On a finite argument the error function is its Maclaurin series; at the infinities
  it takes its limits.
\<close>

definition erf_real :: "real \<Rightarrow> real" where
  "erf_real x = 2 / sqrt pi * (\<Sum>n. (- 1) ^ n * x ^ (2 * n + 1) / (fact n * real (2 * n + 1)))"

fun faddeeva_erf :: "double \<Rightarrow> double" where
  "faddeeva_erf (Fin a) = Fin (erf_real a)"
| "faddeeva_erf PInf = Fin 1"
| "faddeeva_erf NInf = Fin (- 1)"
| "faddeeva_erf NaN = NaN"

fun faddeeva_erfc :: "double \<Rightarrow> double" where
  "faddeeva_erfc (Fin a) = Fin (1 - erf_real a)"
| "faddeeva_erfc PInf = Fin 0"
| "faddeeva_erfc NInf = Fin 2"
| "faddeeva_erfc NaN = NaN"

text \<open>
  Modelled from the spec: the macro \<^verbatim>\<open>sqrt2\<close> stands for
  \<^verbatim>\<open>hydra::math_constants::sqrt2\<close>, which is not among the sources; the specification
  writes it as the square root of two.
\<close>

definition sqrt2 :: double where
  "sqrt2 = Fin (sqrt 2)"

text \<open>\<^verbatim>\<open>Convoluted_exp_sinhcosh\<close>, Functions.h lines 121 to 138.\<close>

definition Convoluted_exp_sinhcosh ::
  "double \<Rightarrow> double \<Rightarrow> double \<Rightarrow> double \<Rightarrow> double \<Rightarrow> int \<Rightarrow> double" where
  "Convoluted_exp_sinhcosh time a b mu sigma tag =
     (let x = (time - mu) / (sigma * sqrt2);
          z1 = (a - b) * sigma / sqrt2;
          z2 = (a + b) * sigma / sqrt2;
          faddeeva_z1 = d_exp (z1 * z1 - Fin 2 * z1 * x) * faddeeva_erfc (z1 - x);
          faddeeva_z2 = d_exp (z2 * z2 - Fin 2 * z2 * x) * faddeeva_erfc (z2 - x);
          Convolution0 = Fin 0;
          Convolution1 = (if 0 < tag then Fin 0.25 * (faddeeva_z1 + faddeeva_z2) else Convolution0);
          Convolution2 = (if tag < 0 then Fin 0.25 * (faddeeva_z1 - faddeeva_z2) else Convolution1)
      in Convolution2)"

text \<open>\<^verbatim>\<open>Integrated_convoluted_exp_sinhcosh\<close>, Functions.h lines 171 to 193.\<close>

definition Integrated_convoluted_exp_sinhcosh ::
  "double \<Rightarrow> double \<Rightarrow> double \<Rightarrow> double \<Rightarrow> double \<Rightarrow> double \<Rightarrow> double \<Rightarrow> int \<Rightarrow> double" where
  "Integrated_convoluted_exp_sinhcosh time a b mu sigma LowerLimit UpperLimit tag =
     (let x1 = (LowerLimit - mu) / (sigma * sqrt2);
          x2 = (UpperLimit - mu) / (sigma * sqrt2);
          z1 = (a - b) * sigma / sqrt2;
          z2 = (a + b) * sigma / sqrt2;
          cumulative_z1 =
            (faddeeva_erf x2 - d_exp (z1 * z1 - Fin 2 * z1 * x2) * faddeeva_erfc (z1 - x2) -
              (faddeeva_erf x1 - d_exp (z1 * z1 - Fin 2 * z1 * x1) * faddeeva_erfc (z1 - x1))) / z1;
          cumulative_z2 =
            (faddeeva_erf x2 - d_exp (z2 * z2 - Fin 2 * z2 * x2) * faddeeva_erfc (z2 - x2) -
              (faddeeva_erf x1 - d_exp (z2 * z2 - Fin 2 * z2 * x1) * faddeeva_erfc (z2 - x1))) / z2;
          Integrated_convolution0 = Fin 0;
          Integrated_convolution1 =
            (if 0 < tag then cumulative_z1 + cumulative_z2 else Integrated_convolution0);
          Integrated_convolution2 =
            (if tag < 0 then cumulative_z1 - cumulative_z2 else Integrated_convolution1)
      in Integrated_convolution2)"

text \<open>
  Modelled from the spec: \<^verbatim>\<open>hydra/Complex.h\<close> and the complex overloads of the error
  functions in \<^verbatim>\<open>medusa/Faddeeva.h\<close> are not among the sources. The trigonometric forms
  compute in \<^verbatim>\<open>hydra::complex\<close> over double; section 4.1 of the specification speaks of a
  complex argument and its complementary error function. The complex type is a parameter \<open>'c\<close>
  and its operations are the fields of a record: the constructor from real and imaginary part,
  the conversion of a double, the real part, the four operations on two complex numbers, the mixed
  operations with a double on one side that the function uses, the exponential and the
  complementary error function.
\<close>

record 'c complex_ops =
  c_make :: "double \<Rightarrow> double \<Rightarrow> 'c"
  c_of_double :: "double \<Rightarrow> 'c"
  c_real :: "'c \<Rightarrow> double"
  c_add :: "'c \<Rightarrow> 'c \<Rightarrow> 'c"
  c_sub :: "'c \<Rightarrow> 'c \<Rightarrow> 'c"
  c_mul :: "'c \<Rightarrow> 'c \<Rightarrow> 'c"
  c_div :: "'c \<Rightarrow> 'c \<Rightarrow> 'c"
  c_scale :: "double \<Rightarrow> 'c \<Rightarrow> 'c"
  c_mul_double :: "'c \<Rightarrow> double \<Rightarrow> 'c"
  c_sub_double :: "'c \<Rightarrow> double \<Rightarrow> 'c"
  double_sub_c :: "double \<Rightarrow> 'c \<Rightarrow> 'c"
  c_exp :: "'c \<Rightarrow> 'c"
  c_erfc :: "'c \<Rightarrow> 'c"

text \<open>\<^verbatim>\<open>Integrated_convoluted_exp_sincos\<close>, Functions.h lines 199 to 225.\<close>

definition Integrated_convoluted_exp_sincos ::
  "'c complex_ops \<Rightarrow> double \<Rightarrow> double \<Rightarrow> double \<Rightarrow> double \<Rightarrow> double \<Rightarrow> double \<Rightarrow> double \<Rightarrow> int
    \<Rightarrow> double" where
  "Integrated_convoluted_exp_sincos ops time a b mu sigma LowerLimit UpperLimit tag =
     (let I = c_make ops (Fin 0) (Fin 1);
          x1 = (LowerLimit - mu) / (sigma * sqrt2);
          x2 = (UpperLimit - mu) / (sigma * sqrt2);
          z1 = c_make ops (a * sigma / sqrt2) (- b * sigma / sqrt2);
          z2 = c_make ops (a * sigma / sqrt2) (b * sigma / sqrt2);
          expo = (\<lambda>z x. c_exp ops
                    (c_sub ops (c_mul ops z z) (c_mul_double ops (c_scale ops (Fin 2) z) x)));
          cumulative_z1 =
            c_sub ops
              (double_sub_c ops (faddeeva_erf x2)
                 (c_mul ops (expo z1 x2) (c_erfc ops (c_sub_double ops z1 x2))))
              (double_sub_c ops (faddeeva_erf x1)
                 (c_mul ops (expo z1 x1) (c_erfc ops (c_sub_double ops z1 x1))));
          cumulative_z2 =
            c_sub ops
              (double_sub_c ops (faddeeva_erf x2)
                 (c_mul ops (expo z2 x2) (c_erfc ops (c_sub_double ops z2 x2))))
              (double_sub_c ops (faddeeva_erf x1)
                 (c_mul ops (expo z2 x1) (c_erfc ops (c_sub_double ops z2 x1))));
          result0 = c_of_double ops (Fin 0);
          result1 =
            (if 0 < tag
             then c_add ops (c_div ops cumulative_z1 z1) (c_div ops cumulative_z2 z2)
             else result0);
          result2 =
            (if tag < 0
             then c_div ops
                    (c_sub ops (c_div ops cumulative_z1 z1) (c_div ops cumulative_z2 z2)) I
             else result1);
          Integrated_convolution = c_real ops result2
      in Integrated_convolution)"

text \<open>
  The numerator \<^verbatim>\<open>cumulative_z1\<close>, \<^verbatim>\<open>cumulative_z2\<close> of the trigonometric form (lines 210
  to 214) as a function of \<open>z\<close>, for stating what the function divides.
\<close>

definition cumulative_sincos :: "'c complex_ops \<Rightarrow> double \<Rightarrow> double \<Rightarrow> 'c \<Rightarrow> 'c" where
  "cumulative_sincos ops x1 x2 z =
     c_sub ops
       (double_sub_c ops (faddeeva_erf x2)
          (c_mul ops
             (c_exp ops (c_sub ops (c_mul ops z z) (c_mul_double ops (c_scale ops (Fin 2) z) x2)))
             (c_erfc ops (c_sub_double ops z x2))))
       (double_sub_c ops (faddeeva_erf x1)
          (c_mul ops
             (c_exp ops (c_sub ops (c_mul ops z z) (c_mul_double ops (c_scale ops (Fin 2) z) x1)))
             (c_erfc ops (c_sub_double ops z x1))))"

text \<open>
  A complex library for examples: pairs of doubles with the textbook formulas for the
  operations. It is not the library of the sources; its complementary error function looks at
  the real part only.
\<close>

definition textbook_complex :: "(double \<times> double) complex_ops" where
  "textbook_complex =
     \<lparr> c_make = \<lambda>re im. (re, im),
       c_of_double = \<lambda>d. (d, Fin 0),
       c_real = fst,
       c_add = \<lambda>p q. (fst p + fst q, snd p + snd q),
       c_sub = \<lambda>p q. (fst p - fst q, snd p - snd q),
       c_mul = \<lambda>p q. (fst p * fst q - snd p * snd q, fst p * snd q + snd p * fst q),
       c_div = \<lambda>p q. ((fst p * fst q + snd p * snd q) / (fst q * fst q + snd q * snd q),
                       (snd p * fst q - fst p * snd q) / (fst q * fst q + snd q * snd q)),
       c_scale = \<lambda>d q. (d * fst q, d * snd q),
       c_mul_double = \<lambda>p d. (fst p * d, snd p * d),
       c_sub_double = \<lambda>p d. (fst p - d, snd p),
       double_sub_c = \<lambda>d q. (d - fst q, - snd q),
       c_exp = \<lambda>p. (d_exp (fst p) * d_cos (snd p), d_exp (fst p) * d_sin (snd p)),
       c_erfc = \<lambda>p. (faddeeva_erfc (fst p), Fin 0) \<rparr>"

text \<open>
  The formula of the specification for the convolved hyperbolic form, in its own words:
  \<open>x = (time - mu) / (sigma * sqrt 2)\<close>, \<open>z1 = (a - b) * sigma / sqrt 2\<close>,
  \<open>z2 = (a + b) * sigma / sqrt 2\<close> and \<open>f(z) = exp(z\<^sup>2 - 2 * z * x) * erfc(z - x)\<close>.
\<close>

definition spec_x :: "double \<Rightarrow> double \<Rightarrow> double \<Rightarrow> double" where
  "spec_x time mu sigma = (time - mu) / (sigma * sqrt2)"

definition spec_z1 :: "double \<Rightarrow> double \<Rightarrow> double \<Rightarrow> double" where
  "spec_z1 a b sigma = (a - b) * sigma / sqrt2"

definition spec_z2 :: "double \<Rightarrow> double \<Rightarrow> double \<Rightarrow> double" where
  "spec_z2 a b sigma = (a + b) * sigma / sqrt2"

definition spec_f :: "double \<Rightarrow> double \<Rightarrow> double" where
  "spec_f x z = d_exp (z * z - Fin 2 * z * x) * faddeeva_erfc (z - x)"

section \<open>CubicSpline.h: the efficiency spline\<close>

text \<open>
  The class template \<^verbatim>\<open>CubicSpline\<close>: the template parameter is a field, the arrays are
  lists. \<open>AS ! d ! i\<close> is \<^verbatim>\<open>AS[d][i]\<close>, the coefficient of degree \<open>d\<close> on interval \<open>i\<close>.
\<close>

record CubicSpline =
  nKnots :: nat
  factorial :: "int list"
  u :: "double list"
  AS :: "double list list"
  NegativePart :: bool
  xNegative :: double

text \<open>The padded knot array: three copies of the first knot, the knots, three of the last.\<close>

definition knot_vector :: "double list \<Rightarrow> double list" where
  "knot_vector knots =
     [knots ! 0, knots ! 0, knots ! 0] @ knots @
     [knots ! (length knots - 1), knots ! (length knots - 1), knots ! (length knots - 1)]"

text \<open>The prefactors \<^verbatim>\<open>P[i]\<close>, \<^verbatim>\<open>Q[i]\<close>, \<^verbatim>\<open>R[i]\<close>, \<^verbatim>\<open>S[i]\<close> (lines 114 to 117).\<close>

definition prefactor_P :: "double list \<Rightarrow> nat \<Rightarrow> double" where
  "prefactor_P us i = (us ! (i+4) - us ! (i+1)) * (us ! (i+4) - us ! (i+2)) * (us ! (i+4) - us ! (i+3))"

definition prefactor_Q :: "double list \<Rightarrow> nat \<Rightarrow> double" where
  "prefactor_Q us i = (us ! (i+5) - us ! (i+2)) * (us ! (i+4) - us ! (i+2)) * (us ! (i+4) - us ! (i+3))"

definition prefactor_R :: "double list \<Rightarrow> nat \<Rightarrow> double" where
  "prefactor_R us i = (us ! (i+5) - us ! (i+3)) * (us ! (i+5) - us ! (i+2)) * (us ! (i+4) - us ! (i+3))"

definition prefactor_S :: "double list \<Rightarrow> nat \<Rightarrow> double" where
  "prefactor_S us i = (us ! (i+6) - us ! (i+3)) * (us ! (i+5) - us ! (i+3)) * (us ! (i+4) - us ! (i+3))"

text \<open>
  The basis-to-monomial coefficients \<^verbatim>\<open>a0[k][i]\<close> to \<^verbatim>\<open>a3[k][i]\<close> (lines 125 to 166), for
  \<open>k\<close> from 0 to 3.
\<close>

definition a0 :: "double list \<Rightarrow> nat \<Rightarrow> nat \<Rightarrow> double" where
  "a0 us k i =
     (let P = prefactor_P us i; Q = prefactor_Q us i; R = prefactor_R us i; S = prefactor_S us i
      in if k = 0 then us ! (i+4) * us ! (i+4) * us ! (i+4) / P
         else if k = 1 then
           - us ! (i+1) * us ! (i+4) * us ! (i+4) / P - us ! (i+2) * us ! (i+4) * us ! (i+5) / Q
             - us ! (i+3) * us ! (i+5) * us ! (i+5) / R
         else if k = 2 then
           us ! (i+2) * us ! (i+2) * us ! (i+4) / Q + us ! (i+2) * us ! (i+3) * us ! (i+5) / R
             + us ! (i+3) * us ! (i+3) * us ! (i+6) / S
         else - us ! (i+3) * us ! (i+3) * us ! (i+3) / S)"

definition a1 :: "double list \<Rightarrow> nat \<Rightarrow> nat \<Rightarrow> double" where
  "a1 us k i =
     (let P = prefactor_P us i; Q = prefactor_Q us i; R = prefactor_R us i; S = prefactor_S us i
      in if k = 0 then Fin (- 3) * us ! (i+4) * us ! (i+4) / P
         else if k = 1 then
           (Fin 2 * us ! (i+1) * us ! (i+4) + us ! (i+4) * us ! (i+4)) / P
             + (us ! (i+2) * us ! (i+4) + us ! (i+2) * us ! (i+5) + us ! (i+4) * us ! (i+5)) / Q
             + (Fin 2 * us ! (i+3) * us ! (i+5) + us ! (i+5) * us ! (i+5)) / R
         else if k = 2 then
           - (Fin 2 * us ! (i+2) * us ! (i+4) + us ! (i+2) * us ! (i+2)) / Q
             - (us ! (i+2) * us ! (i+3) + us ! (i+2) * us ! (i+5) + us ! (i+3) * us ! (i+5)) / R
             - (Fin 2 * us ! (i+3) * us ! (i+6) + us ! (i+3) * us ! (i+3)) / S
         else Fin 3 * us ! (i+3) * us ! (i+3) / S)"

definition a2 :: "double list \<Rightarrow> nat \<Rightarrow> nat \<Rightarrow> double" where
  "a2 us k i =
     (let P = prefactor_P us i; Q = prefactor_Q us i; R = prefactor_R us i; S = prefactor_S us i
      in if k = 0 then Fin 3 * us ! (i+4) / P
         else if k = 1 then
           - (Fin 2 * us ! (i+4) + us ! (i+1)) / P
             - (us ! (i+2) + us ! (i+4) + us ! (i+5)) / Q
             - (Fin 2 * us ! (i+5) + us ! (i+3)) / R
         else if k = 2 then
           (Fin 2 * us ! (i+2) + us ! (i+4)) / Q
             + (us ! (i+2) + us ! (i+5) + us ! (i+3)) / R
             + (Fin 2 * us ! (i+3) + us ! (i+6)) / S
         else Fin (- 3) * us ! (i+3) / S)"

definition a3 :: "double list \<Rightarrow> nat \<Rightarrow> nat \<Rightarrow> double" where
  "a3 us k i =
     (let P = prefactor_P us i; Q = prefactor_Q us i; R = prefactor_R us i; S = prefactor_S us i
      in if k = 0 then Fin (- 1) / P
         else if k = 1 then Fin 1 / P + Fin 1 / Q + Fin 1 / R
         else if k = 2 then Fin (- 1) / Q - Fin 1 / R - Fin 1 / S
         else Fin 1 / S)"

text \<open>
  One pass of the loop of lines 122 to 177 for the coefficient of degree \<open>d\<close> on interval
  \<open>i\<close>: the combination of the four spline coefficients \<^verbatim>\<open>b[i]\<close> to \<^verbatim>\<open>b[i+3]\<close>, set to
  zero when its magnitude is below \<open>1e-9\<close>.
\<close>

definition a_deg :: "double list \<Rightarrow> nat \<Rightarrow> nat \<Rightarrow> nat \<Rightarrow> double" where
  "a_deg us d k i =
     (if d = 0 then a0 us k i else if d = 1 then a1 us k i else if d = 2 then a2 us k i
      else a3 us k i)"

definition snap_small :: "double \<Rightarrow> double" where
  "snap_small c = (if d_fabs c < Fin (1 / 10 ^ 9) then Fin 0 else c)"

definition AS_loop :: "double list \<Rightarrow> double list \<Rightarrow> nat \<Rightarrow> nat \<Rightarrow> double" where
  "AS_loop us b d i =
     snap_small (b ! i * a_deg us d 0 i + b ! (i+1) * a_deg us d 1 i + b ! (i+2) * a_deg us d 2 i
       + b ! (i+3) * a_deg us d 3 i)"

text \<open>
  The constructor (lines 92 to 209; the one of lines 215 to 332 has the same body). The template
  fixes \<open>nKnots\<close> as the length of the knot array. With fewer than two knots the constructor
  reads \<^verbatim>\<open>AS[.][nKnots-2]\<close> outside the table, and with fewer than \<open>nKnots + 2\<close> spline
  coefficients it reads past the list: no instance is made (\<open>None\<close>). When the slope of the last
  interval is not negative the constructor does not assign \<open>xNegative\<close>; the field keeps what
  the storage held before, the argument \<open>xNegative_before\<close>.
\<close>

definition CubicSpline_ctor :: "double list \<Rightarrow> double list \<Rightarrow> double \<Rightarrow> CubicSpline option" where
  "CubicSpline_ctor knots SplineCoefficients xNegative_before =
     (let n = length knots in
      if n < 2 \<or> length SplineCoefficients < n + 2 then None
      else
        let us = knot_vector knots;
            b = take (n + 2) SplineCoefficients;
            rows = map (\<lambda>d. map (AS_loop us b d) [0..<n - 1]) [0..<4];
            v = us ! (n + 2);
            AS3 = Fin 0;
            AS2 = Fin 0;
            AS1 = rows ! 1 ! (n - 2) + Fin 2 * rows ! 2 ! (n - 2) * v
                    + Fin 3 * rows ! 3 ! (n - 2) * v * v;
            AS0 = rows ! 0 ! (n - 2) + rows ! 1 ! (n - 2) * v + rows ! 2 ! (n - 2) * v * v
                    + rows ! 3 ! (n - 2) * v * v * v - AS1 * v
        in Some \<lparr> nKnots = n, factorial = [1, 1, 2, 6], u = us,
                  AS = [rows ! 0 @ [AS0], rows ! 1 @ [AS1], rows ! 2 @ [AS2], rows ! 3 @ [AS3]],
                  NegativePart = (AS1 < Fin 0),
                  xNegative = (if AS1 < Fin 0 then - AS0 / AS1 else xNegative_before) \<rparr>)"

text \<open>\<^verbatim>\<open>findKnot\<close> (lines 408 to 416): the scan keeps the last index whose knot is at most \<open>x\<close>.\<close>

definition findKnot :: "CubicSpline \<Rightarrow> double \<Rightarrow> nat" where
  "findKnot self x = fold (\<lambda>i j. if x \<ge> u self ! (3 + i) then i else j) [0..<nKnots self] 0"

text \<open>\<^verbatim>\<open>CSplineEval\<close> (lines 421 to 429).\<close>

definition CSplineEval :: "CubicSpline \<Rightarrow> double \<Rightarrow> double" where
  "CSplineEval self x =
     (if x > xNegative self \<and> NegativePart self then Fin 0.001
      else
        let j = findKnot self x
        in AS self ! 0 ! j + AS self ! 1 ! j * x + AS self ! 2 ! j * x * x
             + AS self ! 3 ! j * x * x * x)"

text \<open>
  The wording of the specification for the interval of \<open>x\<close>: \<open>j\<close> is the largest index whose
  knot \<^verbatim>\<open>u[3+j]\<close> is at most \<open>x\<close>.
\<close>

definition largest_knot_le :: "CubicSpline \<Rightarrow> double \<Rightarrow> nat \<Rightarrow> bool" where
  "largest_knot_le self x j \<longleftrightarrow>
     j < nKnots self \<and> u self ! (3 + j) \<le> x \<and>
     (\<forall>i < nKnots self. u self ! (3 + i) \<le> x \<longrightarrow> i \<le> j)"

text \<open>Whether some knot is at most \<open>x\<close>.\<close>

definition has_knot_le :: "CubicSpline \<Rightarrow> double \<Rightarrow> bool" where
  "has_knot_le self x \<longleftrightarrow> (\<exists>i < nKnots self. u self ! (3 + i) \<le> x)"

text \<open>
  The linear piece of the last interval at a finite time \<open>t\<close>, computed from the stored
  coefficients, and what it means that it is eventually negative: after some time it is negative.
\<close>

definition extrapolation :: "CubicSpline \<Rightarrow> real \<Rightarrow> double" where
  "extrapolation self t =
     AS self ! 0 ! (nKnots self - 1) + AS self ! 1 ! (nKnots self - 1) * Fin t"

definition eventually_negative :: "CubicSpline \<Rightarrow> bool" where
  "eventually_negative self \<longleftrightarrow> (\<exists>t0. \<forall>t. t0 < t \<longrightarrow> extrapolation self t < Fin 0)"

section \<open>PhisSignal.h: the signal density\<close>

text \<open>
  The functor \<^verbatim>\<open>PhisSignal\<close>: the 17 parameters \<^verbatim>\<open>_par\<close> and the five tables of ten
  entries, \<^verbatim>\<open>N.k\<close>, \<^verbatim>\<open>A.k\<close>, \<^verbatim>\<open>B.k\<close>, \<^verbatim>\<open>C.k\<close> and \<^verbatim>\<open>D.k\<close>. The template
  parameter \<open>B0sbar\<close> is an argument of the member functions that depend on it.
\<close>

record PhisSignal =
  par :: "double list"
  N_k :: "double list"
  A_k :: "double list"
  B_k :: "double list"
  C_k :: "double list"
  D_k :: "double list"

definition CP :: "bool \<Rightarrow> int" where
  "CP B0sbar = (if B0sbar then - 1 else 1)"

text \<open>\<^verbatim>\<open>Time_Factor\<close> (lines 316 to 334).\<close>

definition Time_Factor ::
  "bool \<Rightarrow> PhisSignal \<Rightarrow> nat \<Rightarrow> double \<Rightarrow> double \<Rightarrow> double \<Rightarrow> double \<Rightarrow> double \<Rightarrow> double" where
  "Time_Factor B0sbar self index time chT1 shT1 cT2 sT2 =
     (let f = Fin 0.238732414638;
          time_factor =
            f * d_exp (- (par self ! 3 + Fin 0.65789) * time) *
              (A_k self ! index * chT1 + B_k self ! index * shT1 +
                (C_k self ! index * cT2 + D_k self ! index * sT2) * Fin (of_int (CP B0sbar)))
      in time_factor)"

text \<open>
  The time profiles and the loop of \<^verbatim>\<open>Evaluate\<close> (lines 219 to 231): the sum over the ten
  terms, for the angular factors \<open>F\<close>.
\<close>

definition UnnormPDF_sum :: "bool \<Rightarrow> PhisSignal \<Rightarrow> double list \<Rightarrow> double \<Rightarrow> double" where
  "UnnormPDF_sum B0sbar self F time =
     (let T1 = Fin 0.5 * time * par self ! 4;
          T2 = time * par self ! 5;
          chT1 = d_cosh T1;
          shT1 = d_sinh T1;
          cT2 = d_cos T2;
          sT2 = d_sin T2
      in fold (\<lambda>i UnnormPDF.
                 UnnormPDF + F ! i * N_k self ! i * Time_Factor B0sbar self i time chT1 shT1 cT2 sT2)
           [0..<10] (Fin 0))"

text \<open>
  Modelled from the spec: \<^verbatim>\<open>parameters::AngularFunctions\<close> (\<^verbatim>\<open>medusa/phi_s/Parameters.h\<close>)
  is not among the sources. By section 4.4 of the specification it gives the ten angular factors
  \<^verbatim>\<open>F.fk\<close> of the three angles; it is the argument \<open>AngularFunctions\<close> of
  \<^verbatim>\<open>Evaluate\<close> (lines 195 to 253). The macro \<^verbatim>\<open>hydra::CHECK_VALUE\<close> prints a warning
  when the sum is NaN and leaves the value as it is.
\<close>

definition Evaluate ::
  "bool \<Rightarrow> (double \<Rightarrow> double \<Rightarrow> double \<Rightarrow> double list) \<Rightarrow> PhisSignal
    \<Rightarrow> double \<Rightarrow> double \<Rightarrow> double \<Rightarrow> double \<Rightarrow> double" where
  "Evaluate B0sbar AngularFunctions self time costheta_h costheta_l phi =
     (let A_par2 = Fin 1 - par self ! 0 - par self ! 1;
          UnnormPDF0 = Fin 0
      in if A_par2 < Fin 0 then UnnormPDF0
         else
           let F = AngularFunctions costheta_h costheta_l phi;
               UnnormPDF = UnnormPDF_sum B0sbar self F time
           in if UnnormPDF < Fin 0 then Fin 0 else UnnormPDF)"

text \<open>\<^verbatim>\<open>Update_NFactors\<close> (lines 288 to 311).\<close>

definition Update_NFactors :: "PhisSignal \<Rightarrow> PhisSignal" where
  "Update_NFactors self =
     (let A_par2 = Fin 1 - par self ! 0 - par self ! 1
      in if A_par2 \<ge> Fin 0
         then self \<lparr> N_k := (N_k self)
                [0 := par self ! 0,
                 1 := A_par2,
                 2 := par self ! 1,
                 3 := d_sqrt (par self ! 1 * A_par2),
                 4 := d_sqrt (par self ! 0 * A_par2),
                 5 := d_sqrt (par self ! 0 * par self ! 1),
                 6 := par self ! 2,
                 7 := d_sqrt (par self ! 2 * A_par2),
                 8 := d_sqrt (par self ! 2 * par self ! 1),
                 9 := d_sqrt (par self ! 2 * par self ! 0)] \<rparr>
         else self)"

text \<open>
  Modelled from the spec: \<^verbatim>\<open>Update_ATCoefficients\<close> is declared in the class and defined in
  \<^verbatim>\<open>details/Update_ATCoefficients.inl\<close>, which is not among the sources. By section 4.4 of the
  specification it derives the forty angular-time coefficients from the 17 parameters; the
  formulas are the argument \<open>table\<close>.
\<close>

definition Update_ATCoefficients ::
  "(double list \<Rightarrow> double list \<times> double list \<times> double list \<times> double list)
    \<Rightarrow> PhisSignal \<Rightarrow> PhisSignal" where
  "Update_ATCoefficients table self =
     (case table (par self) of
        (a, b, c, d) \<Rightarrow> self \<lparr> A_k := a, B_k := b, C_k := c, D_k := d \<rparr>)"

text \<open>\<^verbatim>\<open>Update\<close> (lines 186 to 190).\<close>

definition Update ::
  "(double list \<Rightarrow> double list \<times> double list \<times> double list \<times> double list)
    \<Rightarrow> PhisSignal \<Rightarrow> PhisSignal" where
  "Update table self = Update_NFactors (Update_ATCoefficients table self)"

text \<open>The same instance with every entry of the tables \<^verbatim>\<open>C.k\<close> and \<^verbatim>\<open>D.k\<close> negated.\<close>

definition negate_odd :: "PhisSignal \<Rightarrow> PhisSignal" where
  "negate_odd self = self \<lparr> C_k := map uminus (C_k self), D_k := map uminus (D_k self) \<rparr>"

section \<open>Facts about the arithmetic of double\<close>

lemma Fin_minus [simp]: "Fin a - Fin b = Fin (a - b)"
  by (simp add: minus_double_def)

lemma times_Fin_1 [simp]: "x * Fin 1 = x"
  by (cases x) simp_all

lemma times_Fin_m1: "x * Fin (- 1) = - x"
  by (cases x) simp_all

lemma uminus_plus_double: "- (x + y) = - x + - (y::double)"
  by (cases x; cases y) simp_all

lemma uminus_times_double: "- (x * y) = - x * (y::double)"
  by (cases x; cases y) simp_all

lemma not_Fin_plus_left: "\<not> is_Fin x \<Longrightarrow> \<not> is_Fin (x + y)"
  by (cases x; cases y) simp_all

lemma not_Fin_plus_right: "\<not> is_Fin y \<Longrightarrow> \<not> is_Fin (x + y)"
  by (cases x; cases y) simp_all

lemma not_Fin_uminus: "\<not> is_Fin x \<Longrightarrow> \<not> is_Fin (- x)"
  by (cases x) simp_all

lemma not_Fin_minus_left: "\<not> is_Fin x \<Longrightarrow> \<not> is_Fin (x - y)"
  by (simp add: minus_double_def not_Fin_plus_left)

lemma not_Fin_minus_right: "\<not> is_Fin y \<Longrightarrow> \<not> is_Fin (x - y)"
  by (simp add: minus_double_def not_Fin_plus_right not_Fin_uminus)

lemma not_Fin_divide_zero: "\<not> is_Fin (x / Fin 0)"
  by (cases x) simp_all

lemma ge_zero_not_less: "Fin 0 \<le> x \<Longrightarrow> \<not> x < Fin 0"
  by (cases x) simp_all

lemma less_zero_not_ge: "x < Fin 0 \<Longrightarrow> \<not> Fin 0 \<le> x"
  by (cases x) simp_all

lemma clamp_cases:
  "(if S < Fin 0 then Fin 0 else S) = NaN \<or> Fin 0 \<le> (if S < Fin 0 then Fin 0 else S)"
  by (cases S) simp_all

lemma upt_10: "[0..<10] = [0, 1, 2, 3, 4, 5, 6, 7, 8, 9]"
  by (simp add: upt_rec)

lemma list_update_10:
  "length xs = 10 \<Longrightarrow>
     xs[0 := v0, 1 := v1, 2 := v2, 3 := v3, 4 := v4, 5 := v5, 6 := v6, 7 := v7, 8 := v8, 9 := v9] =
     [v0, v1, v2, v3, v4, v5, v6, v7, v8, v9]"
  by (auto simp: eval_nat_numeral length_Suc_conv)

lemma upt_4: "[0..<4] = [0, 1, 2, 3]"
  by (simp add: upt_rec)

section \<open>The time argument of the integrated forms\<close>

text \<open>
  C10. The two integrated convolutions take a first argument \<open>time\<close> and never use it: for
  all values of the other arguments, any two values of \<open>time\<close> give the same result. The
  integral depends on the window from \<open>LowerLimit\<close> to \<open>UpperLimit\<close> only.
\<close>

theorem integrated_forms_ignore_time:
  "Integrated_convoluted_exp_sinhcosh t a b mu sigma LowerLimit UpperLimit tag =
     Integrated_convoluted_exp_sinhcosh t' a b mu sigma LowerLimit UpperLimit tag \<and>
   Integrated_convoluted_exp_sincos ops t a b mu sigma LowerLimit UpperLimit tag =
     Integrated_convoluted_exp_sincos ops t' a b mu sigma LowerLimit UpperLimit tag"
  by (simp add: Integrated_convoluted_exp_sinhcosh_def Integrated_convoluted_exp_sincos_def)

section \<open>The convolved hyperbolic form\<close>

text \<open>
  C5. For a positive tag \<^verbatim>\<open>Convoluted_exp_sinhcosh\<close> returns \<open>0.25 * (f(z1) + f(z2))\<close>, for a
  negative tag \<open>0.25 * (f(z1) - f(z2))\<close>, with \<open>x\<close>, \<open>z1\<close>, \<open>z2\<close> and \<open>f\<close> as the
  specification writes them (\<open>spec_x\<close>, \<open>spec_z1\<close>, \<open>spec_z2\<close>, \<open>spec_f\<close>). That this is
  the closed form of the Gaussian convolution of the decaying hyperbolic functions is the
  derivation of the reference the source cites; the theorem is the equality of the returned value
  and the formula.
\<close>

theorem convoluted_exp_sinhcosh_formula:
  "(0 < tag \<longrightarrow>
      Convoluted_exp_sinhcosh time a b mu sigma tag =
        Fin 0.25 * (spec_f (spec_x time mu sigma) (spec_z1 a b sigma)
                     + spec_f (spec_x time mu sigma) (spec_z2 a b sigma))) \<and>
   (tag < 0 \<longrightarrow>
      Convoluted_exp_sinhcosh time a b mu sigma tag =
        Fin 0.25 * (spec_f (spec_x time mu sigma) (spec_z1 a b sigma)
                     - spec_f (spec_x time mu sigma) (spec_z2 a b sigma)))"
  by (simp add: Convoluted_exp_sinhcosh_def spec_f_def spec_x_def spec_z1_def spec_z2_def Let_def)

theorem convoluted_exp_sinhcosh_formula_witness:
  "Convoluted_exp_sinhcosh (Fin 0) (Fin 1) (Fin 1) (Fin 0) (Fin 1) 1 =
     Fin 0.25 * (spec_f (spec_x (Fin 0) (Fin 0) (Fin 1)) (spec_z1 (Fin 1) (Fin 1) (Fin 1))
                  + spec_f (spec_x (Fin 0) (Fin 0) (Fin 1)) (spec_z2 (Fin 1) (Fin 1) (Fin 1))) \<and>
   Convoluted_exp_sinhcosh (Fin 0) (Fin 1) (Fin 1) (Fin 0) (Fin 1) (- 1) =
     Fin 0.25 * (spec_f (spec_x (Fin 0) (Fin 0) (Fin 1)) (spec_z1 (Fin 1) (Fin 1) (Fin 1))
                  - spec_f (spec_x (Fin 0) (Fin 0) (Fin 1)) (spec_z2 (Fin 1) (Fin 1) (Fin 1))) \<and>
   spec_x (Fin 0) (Fin 0) (Fin 1) = Fin 0 \<and> spec_z1 (Fin 1) (Fin 1) (Fin 1) = Fin 0"
  using convoluted_exp_sinhcosh_formula [of 1 "Fin 0" "Fin 1" "Fin 1" "Fin 0" "Fin 1"]
    convoluted_exp_sinhcosh_formula [of "- 1" "Fin 0" "Fin 1" "Fin 1" "Fin 0" "Fin 1"]
  by (simp add: spec_x_def spec_z1_def sqrt2_def)

section \<open>The point z = 0 of the integrated forms\<close>

lemma integrated_sinhcosh_zero_divisor:
  assumes "tag \<noteq> 0"
    and "(a - b) * sigma / sqrt2 = Fin 0 \<or> (a + b) * sigma / sqrt2 = Fin 0"
  shows "\<not> is_Fin (Integrated_convoluted_exp_sinhcosh time a b mu sigma LowerLimit UpperLimit tag)"
proof -
  define x1 where "x1 = (LowerLimit - mu) / (sigma * sqrt2)"
  define x2 where "x2 = (UpperLimit - mu) / (sigma * sqrt2)"
  define z1 where "z1 = (a - b) * sigma / sqrt2"
  define z2 where "z2 = (a + b) * sigma / sqrt2"
  define num where "num = (\<lambda>z.
      faddeeva_erf x2 - d_exp (z * z - Fin 2 * z * x2) * faddeeva_erfc (z - x2) -
        (faddeeva_erf x1 - d_exp (z * z - Fin 2 * z * x1) * faddeeva_erfc (z - x1)))"
  have result: "Integrated_convoluted_exp_sinhcosh time a b mu sigma LowerLimit UpperLimit tag =
      (if tag < 0 then num z1 / z1 - num z2 / z2 else num z1 / z1 + num z2 / z2)"
    using assms(1)
    by (simp add: Integrated_convoluted_exp_sinhcosh_def Let_def x1_def x2_def z1_def z2_def num_def)
  have "\<not> is_Fin (num z1 / z1) \<or> \<not> is_Fin (num z2 / z2)"
    using assms(2) not_Fin_divide_zero [of "num z1"] not_Fin_divide_zero [of "num z2"]
    unfolding z1_def [symmetric] z2_def [symmetric] by auto
  then show ?thesis
    unfolding result
    using not_Fin_plus_left not_Fin_plus_right not_Fin_minus_left not_Fin_minus_right
    by (cases "tag < 0") auto
qed

lemma integrated_sincos_quotients:
  "Integrated_convoluted_exp_sincos ops time a b mu sigma LowerLimit UpperLimit tag =
     (let x1 = (LowerLimit - mu) / (sigma * sqrt2);
          x2 = (UpperLimit - mu) / (sigma * sqrt2);
          z1 = c_make ops (a * sigma / sqrt2) (- b * sigma / sqrt2);
          z2 = c_make ops (a * sigma / sqrt2) (b * sigma / sqrt2);
          q1 = c_div ops (cumulative_sincos ops x1 x2 z1) z1;
          q2 = c_div ops (cumulative_sincos ops x1 x2 z2) z2
      in if tag < 0 then c_real ops (c_div ops (c_sub ops q1 q2) (c_make ops (Fin 0) (Fin 1)))
         else if 0 < tag then c_real ops (c_add ops q1 q2)
         else c_real ops (c_of_double ops (Fin 0)))"
  by (simp add: Integrated_convoluted_exp_sincos_def cumulative_sincos_def Let_def)

text \<open>
  C1, as the code has it. Neither integrated form has a special case for \<open>z = 0\<close>.
  \<^verbatim>\<open>Integrated_convoluted_exp_sinhcosh\<close> divides by \<open>z1\<close> and by \<open>z2\<close> as they are: when
  the computed \<open>z1\<close> or \<open>z2\<close> is zero and the tag is not zero, the value returned is not
  finite (an infinity or NaN), and no analytic limit stands in for it.
  \<^verbatim>\<open>Integrated_convoluted_exp_sincos\<close> returns, for every input (\<open>a = b = 0\<close> included),
  the real part of \<open>cumulative_z1 / z1 + cumulative_z2 / z2\<close> for a positive tag and of
  \<open>(cumulative_z1 / z1 - cumulative_z2 / z2) / i\<close> for a negative tag, with the quotients as
  the complex library computes them.
\<close>

theorem integrated_forms_divide_by_z:
  "(tag \<noteq> 0 \<and> ((a - b) * sigma / sqrt2 = Fin 0 \<or> (a + b) * sigma / sqrt2 = Fin 0) \<longrightarrow>
      \<not> is_Fin (Integrated_convoluted_exp_sinhcosh time a b mu sigma LowerLimit UpperLimit tag)) \<and>
   (0 < tag \<longrightarrow>
      Integrated_convoluted_exp_sincos ops time a b mu sigma LowerLimit UpperLimit tag =
        c_real ops
          (c_add ops
            (c_div ops
               (cumulative_sincos ops ((LowerLimit - mu) / (sigma * sqrt2))
                  ((UpperLimit - mu) / (sigma * sqrt2))
                  (c_make ops (a * sigma / sqrt2) (- b * sigma / sqrt2)))
               (c_make ops (a * sigma / sqrt2) (- b * sigma / sqrt2)))
            (c_div ops
               (cumulative_sincos ops ((LowerLimit - mu) / (sigma * sqrt2))
                  ((UpperLimit - mu) / (sigma * sqrt2))
                  (c_make ops (a * sigma / sqrt2) (b * sigma / sqrt2)))
               (c_make ops (a * sigma / sqrt2) (b * sigma / sqrt2))))) \<and>
   (tag < 0 \<longrightarrow>
      Integrated_convoluted_exp_sincos ops time a b mu sigma LowerLimit UpperLimit tag =
        c_real ops
          (c_div ops
            (c_sub ops
              (c_div ops
                 (cumulative_sincos ops ((LowerLimit - mu) / (sigma * sqrt2))
                    ((UpperLimit - mu) / (sigma * sqrt2))
                    (c_make ops (a * sigma / sqrt2) (- b * sigma / sqrt2)))
                 (c_make ops (a * sigma / sqrt2) (- b * sigma / sqrt2)))
              (c_div ops
                 (cumulative_sincos ops ((LowerLimit - mu) / (sigma * sqrt2))
                    ((UpperLimit - mu) / (sigma * sqrt2))
                    (c_make ops (a * sigma / sqrt2) (b * sigma / sqrt2)))
                 (c_make ops (a * sigma / sqrt2) (b * sigma / sqrt2))))
            (c_make ops (Fin 0) (Fin 1))))"
  using integrated_sinhcosh_zero_divisor [of tag a b sigma time mu LowerLimit UpperLimit]
  by (simp add: integrated_sincos_quotients Let_def)

theorem integrated_forms_divide_by_z_witness:
  "(1::int) \<noteq> 0 \<and> (Fin 1 - Fin 1) * Fin 1 / sqrt2 = Fin 0 \<and>
   \<not> is_Fin (Integrated_convoluted_exp_sinhcosh (Fin 0) (Fin 1) (Fin 1) (Fin 0) (Fin 1)
               (Fin 0) (Fin 1) 1) \<and>
   Integrated_convoluted_exp_sincos textbook_complex
     (Fin 0) (Fin 0) (Fin 0) (Fin 0) (Fin 1) (Fin 0) (Fin 1) 1 = NaN"
  using integrated_forms_divide_by_z
    [where tag = 1 and a = "Fin 1" and b = "Fin 1" and sigma = "Fin 1" and time = "Fin 0"
       and mu = "Fin 0" and LowerLimit = "Fin 0" and UpperLimit = "Fin 1"
       and ops = textbook_complex]
    integrated_forms_divide_by_z
    [where tag = 1 and a = "Fin 0" and b = "Fin 0" and sigma = "Fin 1" and time = "Fin 0"
       and mu = "Fin 0" and LowerLimit = "Fin 0" and UpperLimit = "Fin 1"
       and ops = textbook_complex]
  by (simp add: sqrt2_def textbook_complex_def cumulative_sincos_def)

text \<open>
  C1 as stated fails: with \<open>a = b = 1\<close>, \<open>sigma = 1\<close>, \<open>mu = 0\<close>, the window from 0 to
  1 and tag 1, \<open>z1\<close> is zero and the value returned is not finite.
\<close>

theorem integrated_sinhcosh_not_finite_at_z_zero:
  "\<not> is_Fin (Integrated_convoluted_exp_sinhcosh (Fin 0) (Fin 1) (Fin 1) (Fin 0) (Fin 1)
               (Fin 0) (Fin 1) 1)"
  by (rule integrated_sinhcosh_zero_divisor) (simp_all add: sqrt2_def)

section \<open>Evaluation of the signal density\<close>

text \<open>
  C2. When \<open>1 - A_0\<^sup>2 - A_perp\<^sup>2\<close>, as \<^verbatim>\<open>Evaluate\<close> computes it from the first two
  parameters, is negative, \<^verbatim>\<open>Evaluate\<close> returns exactly 0.0 for every input tuple. The
  angular functions and the five tables are arbitrary in the statement: the result does not
  depend on them.
\<close>

theorem evaluate_zero_when_unphysical:
  "Fin 1 - par self ! 0 - par self ! 1 < Fin 0 \<Longrightarrow>
     Evaluate B0sbar AngularFunctions self time costheta_h costheta_l phi = Fin 0"
  by (simp add: Evaluate_def)

theorem evaluate_zero_when_unphysical_witness:
  "Fin 1 - Fin 0.75 - Fin 0.5 < Fin 0 \<and>
   Evaluate True (\<lambda>ch cl ph. replicate 10 NaN)
     \<lparr> par = [Fin 0.75, Fin 0.5] @ replicate 15 (Fin 0), N_k = replicate 10 NaN,
       A_k = replicate 10 NaN, B_k = replicate 10 NaN, C_k = replicate 10 NaN,
       D_k = replicate 10 NaN \<rparr>
     (Fin 1) (Fin 0) (Fin 0) (Fin 0) = Fin 0"
  using evaluate_zero_when_unphysical
    [of "\<lparr> par = [Fin 0.75, Fin 0.5] @ replicate 15 (Fin 0), N_k = replicate 10 NaN,
           A_k = replicate 10 NaN, B_k = replicate 10 NaN, C_k = replicate 10 NaN,
           D_k = replicate 10 NaN \<rparr>" True "\<lambda>ch cl ph. replicate 10 NaN"
        "Fin 1" "Fin 0" "Fin 0" "Fin 0"]
  by simp

text \<open>
  C3. When \<open>1 - A_0\<^sup>2 - A_perp\<^sup>2\<close> is at least zero, \<^verbatim>\<open>Evaluate\<close> returns the sum \<open>S\<close>
  over the ten terms unless \<open>S\<close> is below zero, and then 0.0. So a NaN sum is returned as NaN,
  a finite sum \<open>v\<close> gives the real number \<open>max 0 v\<close> (exactly 0.0 when \<open>v\<close> is negative), and
  the value returned is NaN or not below zero, for every state of the tables and every input
  tuple.
\<close>

theorem evaluate_nan_or_nonnegative:
  assumes "Fin 1 - par self ! 0 - par self ! 1 \<ge> Fin 0"
  shows "let S = UnnormPDF_sum B0sbar self (AngularFunctions costheta_h costheta_l phi) time;
             r = Evaluate B0sbar AngularFunctions self time costheta_h costheta_l phi
         in r = (if S < Fin 0 then Fin 0 else S) \<and>
            (S = NaN \<longrightarrow> r = NaN) \<and>
            (\<forall>v. S = Fin v \<longrightarrow> r = Fin (max 0 v)) \<and>
            (r = NaN \<or> Fin 0 \<le> r)"
proof -
  have guard: "\<not> Fin 1 - par self ! 0 - par self ! 1 < Fin 0"
    using assms by (rule ge_zero_not_less)
  define S where "S = UnnormPDF_sum B0sbar self (AngularFunctions costheta_h costheta_l phi) time"
  have r: "Evaluate B0sbar AngularFunctions self time costheta_h costheta_l phi =
             (if S < Fin 0 then Fin 0 else S)"
    using guard by (simp add: Evaluate_def S_def)
  have "(S = NaN \<longrightarrow> (if S < Fin 0 then Fin 0 else S) = NaN)" by simp
  moreover have "\<forall>v. S = Fin v \<longrightarrow> (if S < Fin 0 then Fin 0 else S) = Fin (max 0 v)"
    by (simp add: max_def)
  moreover note clamp_cases [of S]
  ultimately show ?thesis
    unfolding Let_def r S_def [symmetric] by blast
qed

theorem evaluate_nan_or_nonnegative_witness:
  "Fin 1 - Fin (- 0.5) - Fin 0.5 \<ge> Fin 0 \<and>
   Evaluate False (\<lambda>ch cl ph. replicate 10 (Fin 1))
     (Update_NFactors
       \<lparr> par = [Fin (- 0.5), Fin 0.5] @ replicate 15 (Fin 0), N_k = replicate 10 (Fin 0),
         A_k = replicate 10 (Fin 1), B_k = replicate 10 (Fin 0), C_k = replicate 10 (Fin 0),
         D_k = replicate 10 (Fin 0) \<rparr>)
     (Fin 0) (Fin 0) (Fin 0) (Fin 0) = NaN"
proof -
  define st where "st = Update_NFactors
       \<lparr> par = [Fin (- 0.5), Fin 0.5] @ replicate 15 (Fin 0), N_k = replicate 10 (Fin 0),
         A_k = replicate 10 (Fin 1), B_k = replicate 10 (Fin 0), C_k = replicate 10 (Fin 0),
         D_k = replicate 10 (Fin 0) \<rparr>"
  have p: "par st ! 0 = Fin (- 0.5)" "par st ! 1 = Fin 0.5"
    by (simp_all add: st_def Update_NFactors_def Let_def)
  have S: "UnnormPDF_sum False st (replicate 10 (Fin 1)) (Fin 0) = NaN"
    by (simp add: st_def Update_NFactors_def Let_def UnnormPDF_sum_def Time_Factor_def upt_10 CP_def)
  have g: "Fin 1 - par st ! 0 - par st ! 1 \<ge> Fin 0"
    unfolding p by simp
  from evaluate_nan_or_nonnegative [OF g, of False "\<lambda>ch cl ph. replicate 10 (Fin 1)" "Fin 0" "Fin 0" "Fin 0" "Fin 0"] S
  have "Evaluate False (\<lambda>ch cl ph. replicate 10 (Fin 1)) st (Fin 0) (Fin 0) (Fin 0) (Fin 0) = NaN"
    by (simp add: Let_def)
  then show ?thesis by (simp add: st_def)
qed

section \<open>Updating the polarization factors\<close>

text \<open>
  C7. When \<open>A_par\<^sup>2 = 1 - A_0\<^sup>2 - A_perp\<^sup>2\<close> is negative, \<^verbatim>\<open>Update_NFactors\<close>, and
  with it \<^verbatim>\<open>Update\<close>, leaves the table \<^verbatim>\<open>N.k\<close> as it was. When it is at least zero, all ten
  entries are computed anew from \<open>A_0\<^sup>2\<close>, \<open>A_perp\<^sup>2\<close> and \<open>A_S\<^sup>2\<close> (the first three
  parameters).
\<close>

theorem update_nfactors_atomic:
  "(Fin 1 - par self ! 0 - par self ! 1 < Fin 0 \<longrightarrow>
      N_k (Update_NFactors self) = N_k self \<and> N_k (Update table self) = N_k self) \<and>
   (Fin 1 - par self ! 0 - par self ! 1 \<ge> Fin 0 \<and> length (N_k self) = 10 \<longrightarrow>
      N_k (Update table self) =
        [par self ! 0,
         Fin 1 - par self ! 0 - par self ! 1,
         par self ! 1,
         d_sqrt (par self ! 1 * (Fin 1 - par self ! 0 - par self ! 1)),
         d_sqrt (par self ! 0 * (Fin 1 - par self ! 0 - par self ! 1)),
         d_sqrt (par self ! 0 * par self ! 1),
         par self ! 2,
         d_sqrt (par self ! 2 * (Fin 1 - par self ! 0 - par self ! 1)),
         d_sqrt (par self ! 2 * par self ! 1),
         d_sqrt (par self ! 2 * par self ! 0)])"
proof -
  have frame: "par (Update_ATCoefficients table self) = par self \<and>
               N_k (Update_ATCoefficients table self) = N_k self"
    by (simp add: Update_ATCoefficients_def split: prod.split)
  show ?thesis
  proof (intro conjI impI)
    assume "Fin 1 - par self ! 0 - par self ! 1 < Fin 0"
    then have "\<not> Fin 1 - par self ! 0 - par self ! 1 \<ge> Fin 0"
      by (rule less_zero_not_ge)
    then show "N_k (Update_NFactors self) = N_k self" "N_k (Update table self) = N_k self"
      by (simp_all add: Update_def Update_NFactors_def Let_def frame)
  next
    assume h: "Fin 1 - par self ! 0 - par self ! 1 \<ge> Fin 0 \<and> length (N_k self) = 10"
    define A_par2 where "A_par2 = Fin 1 - par self ! 0 - par self ! 1"
    have "N_k (Update table self) =
            (N_k self)
              [0 := par self ! 0, 1 := A_par2, 2 := par self ! 1,
               3 := d_sqrt (par self ! 1 * A_par2), 4 := d_sqrt (par self ! 0 * A_par2),
               5 := d_sqrt (par self ! 0 * par self ! 1), 6 := par self ! 2,
               7 := d_sqrt (par self ! 2 * A_par2), 8 := d_sqrt (par self ! 2 * par self ! 1),
               9 := d_sqrt (par self ! 2 * par self ! 0)]"
      using h by (simp add: Update_def Update_NFactors_def Let_def frame A_par2_def)
    also have "\<dots> =
            [par self ! 0, A_par2, par self ! 1,
             d_sqrt (par self ! 1 * A_par2), d_sqrt (par self ! 0 * A_par2),
             d_sqrt (par self ! 0 * par self ! 1), par self ! 2,
             d_sqrt (par self ! 2 * A_par2), d_sqrt (par self ! 2 * par self ! 1),
             d_sqrt (par self ! 2 * par self ! 0)]"
      by (rule list_update_10) (simp add: h)
    finally show "N_k (Update table self) =
        [par self ! 0,
         Fin 1 - par self ! 0 - par self ! 1,
         par self ! 1,
         d_sqrt (par self ! 1 * (Fin 1 - par self ! 0 - par self ! 1)),
         d_sqrt (par self ! 0 * (Fin 1 - par self ! 0 - par self ! 1)),
         d_sqrt (par self ! 0 * par self ! 1),
         par self ! 2,
         d_sqrt (par self ! 2 * (Fin 1 - par self ! 0 - par self ! 1)),
         d_sqrt (par self ! 2 * par self ! 1),
         d_sqrt (par self ! 2 * par self ! 0)]"
      unfolding A_par2_def .
  qed
qed

theorem update_nfactors_atomic_witness:
  "Fin 1 - Fin 0.75 - Fin 0.5 < Fin 0 \<and>
   N_k (Update (\<lambda>p. (replicate 10 (Fin 1), replicate 10 (Fin 0), replicate 10 (Fin 0),
                       replicate 10 (Fin 0)))
          \<lparr> par = [Fin 0.75, Fin 0.5] @ replicate 15 (Fin 0), N_k = replicate 10 (Fin 7),
            A_k = [], B_k = [], C_k = [], D_k = [] \<rparr>) = replicate 10 (Fin 7) \<and>
   Fin 1 - Fin 1 - Fin 0 \<ge> Fin 0 \<and>
   N_k (Update (\<lambda>p. (replicate 10 (Fin 1), replicate 10 (Fin 0), replicate 10 (Fin 0),
                       replicate 10 (Fin 0)))
          \<lparr> par = [Fin 1, Fin 0] @ replicate 15 (Fin 0), N_k = replicate 10 (Fin 7),
            A_k = [], B_k = [], C_k = [], D_k = [] \<rparr>) =
     [Fin 1, Fin 0, Fin 0, Fin 0, Fin 0, Fin 0, Fin 0, Fin 0, Fin 0, Fin 0]"
  using update_nfactors_atomic
    [of "\<lparr> par = [Fin 0.75, Fin 0.5] @ replicate 15 (Fin 0), N_k = replicate 10 (Fin 7),
            A_k = [], B_k = [], C_k = [], D_k = [] \<rparr>"
        "\<lambda>p. (replicate 10 (Fin 1), replicate 10 (Fin 0), replicate 10 (Fin 0),
                       replicate 10 (Fin 0))"]
    update_nfactors_atomic
    [of "\<lparr> par = [Fin 1, Fin 0] @ replicate 15 (Fin 0), N_k = replicate 10 (Fin 7),
            A_k = [], B_k = [], C_k = [], D_k = [] \<rparr>"
        "\<lambda>p. (replicate 10 (Fin 1), replicate 10 (Fin 0), replicate 10 (Fin 0),
                       replicate 10 (Fin 0))"]
  by simp

section \<open>The two flavours\<close>

lemma time_factor_negate_odd:
  assumes "k < length (C_k self)" "k < length (D_k self)"
  shows "Time_Factor True self k time chT1 shT1 cT2 sT2 =
         Time_Factor False (negate_odd self) k time chT1 shT1 cT2 sT2"
proof -
  have "(C_k self ! k * cT2 + D_k self ! k * sT2) * Fin (- 1) =
        - (C_k self ! k) * cT2 + - (D_k self ! k) * sT2"
    by (simp add: times_Fin_m1 uminus_plus_double uminus_times_double)
  then show ?thesis
    using assms by (simp add: Time_Factor_def negate_odd_def CP_def)
qed

lemma unnormpdf_sum_negate_odd:
  assumes "length (C_k self) = 10" "length (D_k self) = 10"
  shows "UnnormPDF_sum True self F time = UnnormPDF_sum False (negate_odd self) F time"
proof -
  have tf: "\<And>i c s ch sh. i \<in> set [0..<10] \<Longrightarrow>
          Time_Factor True self i time ch sh c s =
          Time_Factor False (negate_odd self) i time ch sh c s"
    using assms by (intro time_factor_negate_odd) simp_all
  have frame: "par (negate_odd self) = par self" "N_k (negate_odd self) = N_k self"
    by (simp_all add: negate_odd_def)
  show ?thesis
    unfolding UnnormPDF_sum_def Let_def frame
    by (rule fold_cong) (simp_all only: tf)
qed

text \<open>
  C8. The time factor of the \<open>B0\<close> instance is the common prefactor times the sum of the
  even part \<open>a_k * cosh + b_k * sinh\<close> and the odd part \<open>c_k * cos + d_k * sin\<close>; that of the
  \<open>B0sbar\<close> instance is the same prefactor times their difference. Nothing else in
  \<^verbatim>\<open>Evaluate\<close> depends on the flavour: the \<open>B0sbar\<close> instance returns what the \<open>B0\<close>
  instance returns on the same parameters, the same inputs and the tables \<^verbatim>\<open>C.k\<close> and
  \<^verbatim>\<open>D.k\<close> negated.
\<close>

theorem flavour_flips_odd_part:
  "Time_Factor False self k time chT1 shT1 cT2 sT2 =
     Fin 0.238732414638 * d_exp (- (par self ! 3 + Fin 0.65789) * time) *
       ((A_k self ! k * chT1 + B_k self ! k * shT1) + (C_k self ! k * cT2 + D_k self ! k * sT2)) \<and>
   Time_Factor True self k time chT1 shT1 cT2 sT2 =
     Fin 0.238732414638 * d_exp (- (par self ! 3 + Fin 0.65789) * time) *
       ((A_k self ! k * chT1 + B_k self ! k * shT1) - (C_k self ! k * cT2 + D_k self ! k * sT2)) \<and>
   (length (C_k self) = 10 \<and> length (D_k self) = 10 \<longrightarrow>
      Evaluate True AngularFunctions self time costheta_h costheta_l phi =
      Evaluate False AngularFunctions (negate_odd self) time costheta_h costheta_l phi)"
proof -
  have "par (negate_odd self) = par self"
    by (simp add: negate_odd_def)
  then have "length (C_k self) = 10 \<and> length (D_k self) = 10 \<longrightarrow>
      Evaluate True AngularFunctions self time costheta_h costheta_l phi =
      Evaluate False AngularFunctions (negate_odd self) time costheta_h costheta_l phi"
    by (simp add: Evaluate_def unnormpdf_sum_negate_odd)
  then show ?thesis
    by (simp add: Time_Factor_def CP_def times_Fin_m1 minus_double_def)
qed

theorem flavour_flips_odd_part_witness:
  "length (replicate 10 (Fin 0.5)) = 10 \<and>
   Evaluate True (\<lambda>ch cl ph. replicate 10 (Fin 1))
     \<lparr> par = replicate 17 (Fin 0), N_k = replicate 10 (Fin 1), A_k = replicate 10 (Fin 1),
       B_k = replicate 10 (Fin 0), C_k = replicate 10 (Fin 0.5), D_k = replicate 10 (Fin 0.5) \<rparr>
     (Fin 1) (Fin 0) (Fin 0) (Fin 0) =
   Evaluate False (\<lambda>ch cl ph. replicate 10 (Fin 1))
     (negate_odd
       \<lparr> par = replicate 17 (Fin 0), N_k = replicate 10 (Fin 1), A_k = replicate 10 (Fin 1),
         B_k = replicate 10 (Fin 0), C_k = replicate 10 (Fin 0.5),
         D_k = replicate 10 (Fin 0.5) \<rparr>)
     (Fin 1) (Fin 0) (Fin 0) (Fin 0)"
  using flavour_flips_odd_part
    [of "\<lparr> par = replicate 17 (Fin 0), N_k = replicate 10 (Fin 1), A_k = replicate 10 (Fin 1),
       B_k = replicate 10 (Fin 0), C_k = replicate 10 (Fin 0.5), D_k = replicate 10 (Fin 0.5) \<rparr>"
       0 "Fin 1" "Fin 1" "Fin 0" "Fin 1" "Fin 0" "\<lambda>ch cl ph. replicate 10 (Fin 1)"
       "Fin 0" "Fin 0" "Fin 0"]
  by simp


section \<open>The pure longitudinal scenario\<close>

lemma update_tables:
  assumes "table (par self) = (ta, tb, tc, td)"
  shows "par (Update table self) = par self"
    "A_k (Update table self) = ta" "B_k (Update table self) = tb"
    "C_k (Update table self) = tc" "D_k (Update table self) = td"
  using assms by (simp_all add: Update_def Update_NFactors_def Update_ATCoefficients_def Let_def)

lemma update_N_pure_longitudinal:
  assumes "par self ! 0 = Fin 1" "par self ! 1 = Fin 0" "par self ! 2 = Fin 0"
    and "length (N_k self) = 10"
  shows "N_k (Update table self) =
           [Fin 1, Fin 0, Fin 0, Fin 0, Fin 0, Fin 0, Fin 0, Fin 0, Fin 0, Fin 0]"
proof -
  have frame: "par (Update_ATCoefficients table self) = par self"
    "N_k (Update_ATCoefficients table self) = N_k self"
    by (simp_all add: Update_ATCoefficients_def split: prod.split)
  have "N_k (Update table self) =
          (N_k self)[0 := Fin 1, 1 := Fin 0, 2 := Fin 0, 3 := Fin 0, 4 := Fin 0, 5 := Fin 0,
                     6 := Fin 0, 7 := Fin 0, 8 := Fin 0, 9 := Fin 0]"
    unfolding Update_def Update_NFactors_def Let_def frame assms(1-3) by simp
  also have "\<dots> = [Fin 1, Fin 0, Fin 0, Fin 0, Fin 0, Fin 0, Fin 0, Fin 0, Fin 0, Fin 0]"
    by (rule list_update_10) (rule assms(4))
  finally show ?thesis .
qed

lemma pure_longitudinal_value:
  assumes p: "par self ! 0 = Fin 1" "par self ! 1 = Fin 0" "par self ! 2 = Fin 0"
      "par self ! 3 = Fin g" "par self ! 4 = Fin 0" "par self ! 5 = Fin 0"
    and n: "length (N_k self) = 10"
    and t: "table (par self) = (map Fin av, map Fin bv, map Fin cv, map Fin dv)"
    and l: "length av = 10" "length bv = 10" "length cv = 10" "length dv = 10"
    and f: "AngularFunctions costheta_h costheta_l phi = map Fin fv" "length fv = 10"
  shows "Evaluate B0sbar AngularFunctions (Update table self) (Fin t) costheta_h costheta_l phi =
           Fin (max 0 (0.238732414638 * exp (- (g + 0.65789) * t)
                        * (av ! 0 + cv ! 0 * of_int (CP B0sbar)) * 1 * fv ! 0))"
proof -
  define st where "st = Update table self"
  note tabs = update_tables [of table self, OF t, folded st_def]
  note N = update_N_pure_longitudinal [OF p(1-3) n, of table, folded st_def]
  have guard: "\<not> Fin 1 - par st ! 0 - par st ! 1 < Fin 0"
    unfolding tabs p by simp
  have tf: "\<And>k. k < 10 \<Longrightarrow>
      Time_Factor B0sbar st k (Fin t) (Fin 1) (Fin 0) (Fin 1) (Fin 0) =
        Fin (0.238732414638 * exp (- (g + 0.65789) * t) * (av ! k + cv ! k * of_int (CP B0sbar)))"
    unfolding Time_Factor_def Let_def tabs p using l by simp
  have profiles: "d_cosh (Fin 0.5 * Fin t * par st ! 4) = Fin 1"
    "d_sinh (Fin 0.5 * Fin t * par st ! 4) = Fin 0"
    "d_cos (Fin t * par st ! 5) = Fin 1" "d_sin (Fin t * par st ! 5) = Fin 0"
    unfolding tabs p by simp_all
  have S: "UnnormPDF_sum B0sbar st (map Fin fv) (Fin t) =
        Fin (fv ! 0 * (0.238732414638 * exp (- (g + 0.65789) * t)
                        * (av ! 0 + cv ! 0 * of_int (CP B0sbar))))"
    unfolding UnnormPDF_sum_def Let_def profiles upt_10 N
    using f(2) by (simp add: tf)
  show ?thesis
    unfolding st_def [symmetric] Evaluate_def Let_def f(1) S
    using guard by (simp add: max_def mult.commute)
qed

lemma exp_offset_bound: "exp (- (65789 / 100000 :: real)) < 61 / 100"
proof -
  have "1 + (65789 / 100000 :: real) \<le> exp (65789 / 100000)"
    by (rule exp_ge_add_one_self)
  then have "inverse (exp (65789 / 100000 :: real)) \<le> inverse (1 + 65789 / 100000)"
    by (intro le_imp_inverse_le) simp_all
  also have "\<dots> < 61 / 100" by simp
  finally show ?thesis by (simp add: exp_minus)
qed

lemma three_over_four_pi: "3 / 16 < 3 / (4 * pi)"
  using pi_less_4 pi_gt_zero by (simp add: field_simps)

lemma time_factor_pure_longitudinal:
  assumes "par self ! 3 = Fin g"
    and "table (par self) = (map Fin av, map Fin bv, map Fin cv, map Fin dv)"
    and "length av = 10" "length bv = 10" "length cv = 10" "length dv = 10"
  shows "Time_Factor B0sbar (Update table self) 0 (Fin t) (Fin 1) (Fin 0) (Fin 1) (Fin 0) =
           Fin 0.238732414638 * d_exp (- (Fin g + Fin 0.65789) * Fin t)
             * (Fin (av ! 0) + Fin (cv ! 0) * Fin (of_int (CP B0sbar)))"
proof -
  note tabs = update_tables [of table self, OF assms(2)]
  show ?thesis
    unfolding Time_Factor_def Let_def tabs assms(1) using assms(3-6) by simp
qed

text \<open>
  C9, as the code has it. Let \<open>Delta Gamma = 0\<close>, \<open>Delta M = 0\<close>, \<open>A_0\<^sup>2 = 1\<close> and
  \<open>A_perp\<^sup>2 = A_S\<^sup>2 = 0\<close>, with finite tables, finite angular factors,
  \<open>Delta Gamma_sd = g\<close> and a finite time \<open>t\<close> at which each of the ten time factors is
  finite. After \<^verbatim>\<open>Update\<close> the factor \<open>N_0\<close> is 1; the time factor of term 0 is
  \<open>f * exp(- (g + 0.65789) * t) * (a_0 + c_0 * CP)\<close> with the constant \<open>f = 0.238732414638\<close> of
  the code; and \<^verbatim>\<open>Evaluate\<close> returns \<open>F_0 * N_0\<close> times that time factor, or 0.0 when this
  product is below zero. The hyperbolic sine and the sine terms vanish; the cosine term stays
  with the weight \<open>c_0\<close>, and the exponent holds the fixed offset 0.65789.
\<close>

theorem evaluate_pure_longitudinal:
  assumes "par self ! 0 = Fin 1" "par self ! 1 = Fin 0" "par self ! 2 = Fin 0"
      "par self ! 3 = Fin g" "par self ! 4 = Fin 0" "par self ! 5 = Fin 0"
    and "length (N_k self) = 10"
    and "table (par self) = (map Fin av, map Fin bv, map Fin cv, map Fin dv)"
    and "length av = 10" "length bv = 10" "length cv = 10" "length dv = 10"
    and "AngularFunctions costheta_h costheta_l phi = map Fin fv" "length fv = 10"
    and "\<forall>k<10. is_Fin (Time_Factor B0sbar (Update table self) k (Fin t)
                          (Fin 1) (Fin 0) (Fin 1) (Fin 0))"
  shows "N_k (Update table self) ! 0 = Fin 1 \<and>
         Time_Factor B0sbar (Update table self) 0 (Fin t) (Fin 1) (Fin 0) (Fin 1) (Fin 0) =
           Fin 0.238732414638 * d_exp (- (Fin g + Fin 0.65789) * Fin t)
             * (Fin (av ! 0) + Fin (cv ! 0) * Fin (of_int (CP B0sbar))) \<and>
         Evaluate B0sbar AngularFunctions (Update table self) (Fin t) costheta_h costheta_l phi =
           (let v = Fin (fv ! 0) * N_k (Update table self) ! 0
                      * Time_Factor B0sbar (Update table self) 0 (Fin t)
                          (Fin 1) (Fin 0) (Fin 1) (Fin 0)
            in if v < Fin 0 then Fin 0 else v)"
proof -
  have N0: "N_k (Update table self) ! 0 = Fin 1"
    using update_N_pure_longitudinal [of self table, OF assms(1-3,7)] by simp
  have TF: "Time_Factor B0sbar (Update table self) 0 (Fin t) (Fin 1) (Fin 0) (Fin 1) (Fin 0) =
           Fin 0.238732414638 * d_exp (- (Fin g + Fin 0.65789) * Fin t)
             * (Fin (av ! 0) + Fin (cv ! 0) * Fin (of_int (CP B0sbar)))"
    by (rule time_factor_pure_longitudinal [where self = self and table = table, OF assms(4,8-12)])
  have E: "Evaluate B0sbar AngularFunctions (Update table self) (Fin t) costheta_h costheta_l phi =
           Fin (max 0 (0.238732414638 * exp (- (g + 0.65789) * t)
                        * (av ! 0 + cv ! 0 * of_int (CP B0sbar)) * 1 * fv ! 0))"
    by (rule pure_longitudinal_value
          [where self = self and table = table and AngularFunctions = AngularFunctions
             and av = av and bv = bv and cv = cv and dv = dv and fv = fv and g = g,
           OF assms(1-14)])
  show ?thesis
    unfolding E unfolding N0 TF by (simp add: max_def mult.commute mult.left_commute)
qed

theorem evaluate_pure_longitudinal_witness:
  "Evaluate True (\<lambda>ch cl ph. map Fin [3, 0, 0, 0, 0, 0, 0, 0, 0, 0])
     (Update (\<lambda>p. (map Fin [1, 1, 1, 1, 1, 1, 1, 1, 1, 1], map Fin [0, 0, 0, 0, 0, 0, 0, 0, 0, 0],
                    map Fin [0, 0, 0, 0, 0, 0, 0, 0, 0, 0], map Fin [0, 0, 0, 0, 0, 0, 0, 0, 0, 0]))
        \<lparr> par = [Fin 1, Fin 0, Fin 0, Fin 2, Fin 0, Fin 0] @ replicate 11 (Fin 0),
          N_k = replicate 10 (Fin 0), A_k = replicate 10 (Fin 0), B_k = replicate 10 (Fin 0),
          C_k = replicate 10 (Fin 0), D_k = replicate 10 (Fin 0) \<rparr>)
     (Fin 1) (Fin 0) (Fin 0) (Fin 0) = Fin (3 * 0.238732414638 * exp (- 2.65789))"
proof -
  define st where "st =
        \<lparr> par = [Fin 1, Fin 0, Fin 0, Fin 2, Fin 0, Fin 0] @ replicate 11 (Fin 0),
          N_k = replicate 10 (Fin 0), A_k = replicate 10 (Fin 0), B_k = replicate 10 (Fin 0),
          C_k = replicate 10 (Fin 0), D_k = replicate 10 (Fin 0) \<rparr>"
  define tb :: "double list \<Rightarrow> double list \<times> double list \<times> double list \<times> double list"
    where "tb = (\<lambda>p. (map Fin [1, 1, 1, 1, 1, 1, 1, 1, 1, 1], map Fin [0, 0, 0, 0, 0, 0, 0, 0, 0, 0],
                    map Fin [0, 0, 0, 0, 0, 0, 0, 0, 0, 0], map Fin [0, 0, 0, 0, 0, 0, 0, 0, 0, 0]))"
  have tabs: "A_k (Update tb st) = map Fin [1, 1, 1, 1, 1, 1, 1, 1, 1, 1]"
    "B_k (Update tb st) = map Fin [0, 0, 0, 0, 0, 0, 0, 0, 0, 0]"
    "C_k (Update tb st) = map Fin [0, 0, 0, 0, 0, 0, 0, 0, 0, 0]"
    "D_k (Update tb st) = map Fin [0, 0, 0, 0, 0, 0, 0, 0, 0, 0]"
    "par (Update tb st) = par st"
    using update_tables [of tb st] by (simp_all add: tb_def)
  have fin: "\<forall>k<10. is_Fin (Time_Factor True (Update tb st) k (Fin 1)
                          (Fin 1) (Fin 0) (Fin 1) (Fin 0))"
  proof (intro allI impI)
    fix k :: nat
    assume "k < 10"
    then show "is_Fin (Time_Factor True (Update tb st) k (Fin 1) (Fin 1) (Fin 0) (Fin 1) (Fin 0))"
      unfolding Time_Factor_def Let_def tabs by (simp add: st_def nth_map del: list.map)
  qed
  have "Evaluate True (\<lambda>ch cl ph. map Fin [3, 0, 0, 0, 0, 0, 0, 0, 0, 0]) (Update tb st)
          (Fin 1) (Fin 0) (Fin 0) (Fin 0) = Fin (3 * 0.238732414638 * exp (- 2.65789))"
    using evaluate_pure_longitudinal
      [where self = st and table = tb and g = 2 and t = 1 and B0sbar = True
         and av = "[1, 1, 1, 1, 1, 1, 1, 1, 1, 1]" and bv = "[0, 0, 0, 0, 0, 0, 0, 0, 0, 0]"
         and cv = "[0, 0, 0, 0, 0, 0, 0, 0, 0, 0]" and dv = "[0, 0, 0, 0, 0, 0, 0, 0, 0, 0]"
         and AngularFunctions = "\<lambda>ch cl ph. map Fin [3, 0, 0, 0, 0, 0, 0, 0, 0, 0]"
         and fv = "[3, 0, 0, 0, 0, 0, 0, 0, 0, 0]"
         and costheta_h = "Fin 0" and costheta_l = "Fin 0" and phi = "Fin 0", OF _ _ _ _ _ _ _ _ _ _ _ _ _ _ fin]
    by (simp add: st_def tb_def CP_def mult.commute)
  then show ?thesis
    by (simp add: st_def tb_def)
qed

text \<open>
  C9 as stated fails: with \<open>Delta Gamma_sd = 0\<close>, \<open>a_0 = 1\<close>, \<open>c_0 = 0\<close>, \<open>F_0 = 1\<close>
  and \<open>t = 1\<close> the claim gives \<open>3 / (4 * pi)\<close>, and \<^verbatim>\<open>Evaluate\<close> returns
  \<open>0.238732414638 * exp(- 0.65789)\<close>, which is smaller.
\<close>

theorem evaluate_pure_longitudinal_counterexample:
  "Evaluate False (\<lambda>ch cl ph. map Fin [1, 0, 0, 0, 0, 0, 0, 0, 0, 0])
     (Update (\<lambda>p. (map Fin [1, 1, 1, 1, 1, 1, 1, 1, 1, 1], map Fin [0, 0, 0, 0, 0, 0, 0, 0, 0, 0],
                    map Fin [0, 0, 0, 0, 0, 0, 0, 0, 0, 0], map Fin [0, 0, 0, 0, 0, 0, 0, 0, 0, 0]))
        \<lparr> par = [Fin 1, Fin 0, Fin 0, Fin 0, Fin 0, Fin 0] @ replicate 11 (Fin 0),
          N_k = replicate 10 (Fin 0), A_k = replicate 10 (Fin 0), B_k = replicate 10 (Fin 0),
          C_k = replicate 10 (Fin 0), D_k = replicate 10 (Fin 0) \<rparr>)
     (Fin 1) (Fin 0) (Fin 0) (Fin 0)
   \<noteq> Fin (3 / (4 * pi) * exp (- 0 * 1) * 1 * 1)"
proof -
  have "Evaluate False (\<lambda>ch cl ph. map Fin [1, 0, 0, 0, 0, 0, 0, 0, 0, 0])
     (Update (\<lambda>p. (map Fin [1, 1, 1, 1, 1, 1, 1, 1, 1, 1], map Fin [0, 0, 0, 0, 0, 0, 0, 0, 0, 0],
                    map Fin [0, 0, 0, 0, 0, 0, 0, 0, 0, 0], map Fin [0, 0, 0, 0, 0, 0, 0, 0, 0, 0]))
        \<lparr> par = [Fin 1, Fin 0, Fin 0, Fin 0, Fin 0, Fin 0] @ replicate 11 (Fin 0),
          N_k = replicate 10 (Fin 0), A_k = replicate 10 (Fin 0), B_k = replicate 10 (Fin 0),
          C_k = replicate 10 (Fin 0), D_k = replicate 10 (Fin 0) \<rparr>)
     (Fin 1) (Fin 0) (Fin 0) (Fin 0) =
     Fin (max 0 (0.238732414638 * exp (- (0 + 0.65789) * 1)
                        * ([1, 1, 1, 1, 1, 1, 1, 1, 1, 1] ! 0
                           + [0, 0, 0, 0, 0, 0, 0, 0, 0, 0] ! 0 * of_int (CP False)) * 1
                        * [1, 0, 0, 0, 0, 0, 0, 0, 0, 0] ! 0))"
    by (rule pure_longitudinal_value
          [where av = "[1, 1, 1, 1, 1, 1, 1, 1, 1, 1]" and bv = "[0, 0, 0, 0, 0, 0, 0, 0, 0, 0]"
             and cv = "[0, 0, 0, 0, 0, 0, 0, 0, 0, 0]" and dv = "[0, 0, 0, 0, 0, 0, 0, 0, 0, 0]"
             and fv = "[1, 0, 0, 0, 0, 0, 0, 0, 0, 0]" and g = 0]) simp_all
  also have "\<dots> = Fin (0.238732414638 * exp (- (65789 / 100000)))"
    by simp
  finally have E: "Evaluate False (\<lambda>ch cl ph. map Fin [1, 0, 0, 0, 0, 0, 0, 0, 0, 0])
     (Update (\<lambda>p. (map Fin [1, 1, 1, 1, 1, 1, 1, 1, 1, 1], map Fin [0, 0, 0, 0, 0, 0, 0, 0, 0, 0],
                    map Fin [0, 0, 0, 0, 0, 0, 0, 0, 0, 0], map Fin [0, 0, 0, 0, 0, 0, 0, 0, 0, 0]))
        \<lparr> par = [Fin 1, Fin 0, Fin 0, Fin 0, Fin 0, Fin 0] @ replicate 11 (Fin 0),
          N_k = replicate 10 (Fin 0), A_k = replicate 10 (Fin 0), B_k = replicate 10 (Fin 0),
          C_k = replicate 10 (Fin 0), D_k = replicate 10 (Fin 0) \<rparr>)
     (Fin 1) (Fin 0) (Fin 0) (Fin 0) = Fin (0.238732414638 * exp (- (65789 / 100000)))" .
  have "0.238732414638 * exp (- (65789 / 100000 :: real)) < 0.238732414638 * (61 / 100)"
    using exp_offset_bound by simp
  also have "\<dots> < 3 / 16" by simp
  also have "\<dots> < 3 / (4 * pi)" by (rule three_over_four_pi)
  finally have "0.238732414638 * exp (- (65789 / 100000 :: real)) \<noteq> 3 / (4 * pi)"
    by simp
  then show ?thesis unfolding E by simp
qed


section \<open>Evaluation of the spline\<close>

lemma scan_last_index:
  "(if \<exists>i<m. Q i
    then fold (\<lambda>i j. if Q i then i else j) [0..<m] 0 < m \<and>
         Q (fold (\<lambda>i j. if Q i then i else j) [0..<m] 0) \<and>
         (\<forall>i<m. Q i \<longrightarrow> i \<le> fold (\<lambda>i j. if Q i then i else j) [0..<m] 0)
    else fold (\<lambda>i j. if Q i then i else j) [0..<m] (0::nat) = 0)"
proof (induction m)
  case 0
  then show ?case by simp
next
  case (Suc m)
  show ?case
  proof (cases "Q m")
    case True
    then show ?thesis by (auto simp: less_Suc_eq)
  next
    case False
    then have same: "(\<exists>i<Suc m. Q i) = (\<exists>i<m. Q i)"
      by (auto simp: less_Suc_eq)
    show ?thesis
      using Suc.IH False unfolding same by (auto simp: less_Suc_eq)
  qed
qed

lemma findKnot_largest:
  "has_knot_le self x \<Longrightarrow> largest_knot_le self x (findKnot self x)"
  using scan_last_index [of "nKnots self" "\<lambda>i. u self ! (3 + i) \<le> x"]
  by (simp add: has_knot_le_def largest_knot_le_def findKnot_def)

lemma findKnot_default:
  "\<not> has_knot_le self x \<Longrightarrow> findKnot self x = 0"
  using scan_last_index [of "nKnots self" "\<lambda>i. u self ! (3 + i) \<le> x"]
  by (simp add: has_knot_le_def findKnot_def)

lemma ctor_knots:
  assumes "CubicSpline_ctor knots cs x0 = Some self"
  shows "nKnots self = length knots" "u self = knot_vector knots"
  using assms by (auto simp: CubicSpline_ctor_def Let_def split: if_splits)

text \<open>
  The spline on the knots 0 and 1 with the coefficients 1, 1, 1, 0: the cubic \<open>1 - x\<^sup>3\<close> on the
  first interval and the line \<open>3 - 3 * x\<close> after the last knot, which crosses zero at 1.
\<close>

lemma example_prefactors:
  "prefactor_P [Fin 0, Fin 0, Fin 0, Fin 0, Fin 1, Fin 1, Fin 1, Fin 1] 0 = Fin 1"
  "prefactor_Q [Fin 0, Fin 0, Fin 0, Fin 0, Fin 1, Fin 1, Fin 1, Fin 1] 0 = Fin 1"
  "prefactor_R [Fin 0, Fin 0, Fin 0, Fin 0, Fin 1, Fin 1, Fin 1, Fin 1] 0 = Fin 1"
  "prefactor_S [Fin 0, Fin 0, Fin 0, Fin 0, Fin 1, Fin 1, Fin 1, Fin 1] 0 = Fin 1"
  by (simp_all add: prefactor_P_def prefactor_Q_def prefactor_R_def prefactor_S_def)

lemma example_loop:
  "AS_loop [Fin 0, Fin 0, Fin 0, Fin 0, Fin 1, Fin 1, Fin 1, Fin 1] [Fin 1, Fin 1, Fin 1, Fin 0] 0 0 = Fin 1"
  "AS_loop [Fin 0, Fin 0, Fin 0, Fin 0, Fin 1, Fin 1, Fin 1, Fin 1] [Fin 1, Fin 1, Fin 1, Fin 0] 1 0 = Fin 0"
  "AS_loop [Fin 0, Fin 0, Fin 0, Fin 0, Fin 1, Fin 1, Fin 1, Fin 1] [Fin 1, Fin 1, Fin 1, Fin 0] 2 0 = Fin 0"
  "AS_loop [Fin 0, Fin 0, Fin 0, Fin 0, Fin 1, Fin 1, Fin 1, Fin 1] [Fin 1, Fin 1, Fin 1, Fin 0] 3 0 = Fin (- 1)"
  by (simp_all add: AS_loop_def a_deg_def a0_def a1_def a2_def a3_def example_prefactors snap_small_def)

lemma example_spline:
  "CubicSpline_ctor [Fin 0, Fin 1] [Fin 1, Fin 1, Fin 1, Fin 0] (Fin 0) =
     Some \<lparr> nKnots = 2, factorial = [1, 1, 2, 6],
            u = [Fin 0, Fin 0, Fin 0, Fin 0, Fin 1, Fin 1, Fin 1, Fin 1],
            AS = [[Fin 1, Fin 3], [Fin 0, Fin (- 3)], [Fin 0, Fin 0], [Fin (- 1), Fin 0]],
            NegativePart = True, xNegative = Fin 1 \<rparr>"
  by (simp add: CubicSpline_ctor_def Let_def knot_vector_def upt_4 example_loop
        example_loop(2) [unfolded One_nat_def])

text \<open>
  C4, as the code has it. If \<open>NegativePart\<close> is set and \<open>x\<close> is above \<open>xNegative\<close>,
  \<^verbatim>\<open>CSplineEval\<close> returns exactly 0.001. Otherwise it returns the cubic of the interval
  \<open>j\<close> that \<^verbatim>\<open>findKnot\<close> gives. When some knot is at most \<open>x\<close>, \<open>j\<close> is the largest index
  whose knot is at most \<open>x\<close>; when no knot is at most \<open>x\<close> (\<open>x\<close> below every knot, or NaN),
  \<open>j\<close> is 0.
\<close>

theorem csplineeval_cases:
  "(NegativePart self \<and> x > xNegative self \<longrightarrow> CSplineEval self x = Fin 0.001) \<and>
   (\<not> (NegativePart self \<and> x > xNegative self) \<longrightarrow>
      CSplineEval self x =
        AS self ! 0 ! findKnot self x + AS self ! 1 ! findKnot self x * x
          + AS self ! 2 ! findKnot self x * x * x + AS self ! 3 ! findKnot self x * x * x * x) \<and>
   (has_knot_le self x \<longrightarrow> largest_knot_le self x (findKnot self x)) \<and>
   (\<not> has_knot_le self x \<longrightarrow> findKnot self x = 0)"
  using findKnot_largest [of self x] findKnot_default [of self x]
  by (auto simp: CSplineEval_def Let_def)

theorem csplineeval_cases_witness:
  "CSplineEval (the (CubicSpline_ctor [Fin 0, Fin 1] [Fin 1, Fin 1, Fin 1, Fin 0] (Fin 0))) (Fin 2)
     = Fin 0.001 \<and>
   has_knot_le (the (CubicSpline_ctor [Fin 0, Fin 1] [Fin 1, Fin 1, Fin 1, Fin 0] (Fin 0)))
     (Fin 0.5) \<and>
   largest_knot_le (the (CubicSpline_ctor [Fin 0, Fin 1] [Fin 1, Fin 1, Fin 1, Fin 0] (Fin 0)))
     (Fin 0.5) 0 \<and>
   CSplineEval (the (CubicSpline_ctor [Fin 0, Fin 1] [Fin 1, Fin 1, Fin 1, Fin 0] (Fin 0)))
     (Fin 0.5) = Fin 0.875"
proof -
  define s where "s = the (CubicSpline_ctor [Fin 0, Fin 1] [Fin 1, Fin 1, Fin 1, Fin 0] (Fin 0))"
  have f: "nKnots s = 2" "u s = [Fin 0, Fin 0, Fin 0, Fin 0, Fin 1, Fin 1, Fin 1, Fin 1]"
    "AS s = [[Fin 1, Fin 3], [Fin 0, Fin (- 3)], [Fin 0, Fin 0], [Fin (- 1), Fin 0]]"
    "NegativePart s" "xNegative s = Fin 1"
    by (simp_all add: s_def example_spline)
  have h: "has_knot_le s (Fin 0.5)"
    by (simp add: has_knot_le_def f numeral_2_eq_2 Ex_less_Suc)
  note t1 = csplineeval_cases [of s "Fin 2"]
  note t2 = csplineeval_cases [of s "Fin 0.5"]
  from t2 h have l: "largest_knot_le s (Fin 0.5) (findKnot s (Fin 0.5))" by blast
  then have j: "findKnot s (Fin 0.5) = 0"
    by (auto simp: largest_knot_le_def f numeral_2_eq_2 less_Suc_eq)
  have "CSplineEval s (Fin 2) = Fin 0.001"
    using t1 by (simp add: f)
  moreover have "CSplineEval s (Fin 0.5) = Fin 0.875"
    using t2 unfolding j by (simp add: f)
  ultimately show ?thesis
    using h l unfolding j s_def [symmetric] by simp
qed

text \<open>
  C4 as stated fails below the first knot: for the spline on the knots 0 and 1 and \<open>x = - 1\<close>
  no knot is at most \<open>x\<close>, \<^verbatim>\<open>findKnot\<close> gives 0, and 0 is not an index whose knot is at
  most \<open>x\<close>.
\<close>

theorem findKnot_below_first_knot:
  "\<not> largest_knot_le
       (the (CubicSpline_ctor [Fin 0, Fin 1] [Fin 1, Fin 1, Fin 1, Fin 1] (Fin 0))) (Fin (- 1))
       (findKnot (the (CubicSpline_ctor [Fin 0, Fin 1] [Fin 1, Fin 1, Fin 1, Fin 1] (Fin 0)))
          (Fin (- 1)))"
proof -
  obtain s where s: "CubicSpline_ctor [Fin 0, Fin 1] [Fin 1, Fin 1, Fin 1, Fin 1] (Fin 0) = Some s"
    by (simp add: CubicSpline_ctor_def Let_def)
  have k: "nKnots s = 2" "u s = [Fin 0, Fin 0, Fin 0, Fin 0, Fin 1, Fin 1, Fin 1, Fin 1]"
    using ctor_knots [OF s] by (simp_all add: knot_vector_def)
  have "\<not> has_knot_le s (Fin (- 1))"
    by (simp add: has_knot_le_def k numeral_2_eq_2 Ex_less_Suc)
  then have "findKnot s (Fin (- 1)) = 0"
    by (rule findKnot_default)
  then show ?thesis
    unfolding s by (simp add: largest_knot_le_def k)
qed

section \<open>The negative part of the extrapolation\<close>

lemma line_eventually_negative:
  assumes "p1 < (0::real)"
  shows "\<forall>t. - p0 / p1 < t \<longrightarrow> p0 + p1 * t < 0"
  using assms by (auto simp: field_simps)

lemma ctor_last_interval:
  assumes "CubicSpline_ctor knots cs x0 = Some self"
  shows "NegativePart self = (AS self ! 1 ! (nKnots self - 1) < Fin 0)"
    and "xNegative self =
           (if AS self ! 1 ! (nKnots self - 1) < Fin 0
            then - AS self ! 0 ! (nKnots self - 1) / AS self ! 1 ! (nKnots self - 1)
            else x0)"
proof -
  from assms have n: "2 \<le> length knots" "length knots + 2 \<le> length cs"
    by (auto simp: CubicSpline_ctor_def Let_def split: if_splits)
  let ?n = "length knots"
  let ?us = "knot_vector knots"
  let ?b = "take (length knots + 2) cs"
  define L where "L = (\<lambda>d. AS_loop ?us ?b d (?n - 2))"
  define v where "v = ?us ! (?n + 2)"
  define S1 where "S1 = L 1 + Fin 2 * L 2 * v + Fin 3 * L 3 * v * v"
  define S0 where "S0 = L 0 + L 1 * v + L 2 * v * v + L 3 * v * v * v - S1 * v"
  have "CubicSpline_ctor knots cs x0 =
      Some \<lparr> nKnots = ?n, factorial = [1, 1, 2, 6], u = ?us,
             AS = [map (AS_loop ?us ?b 0) [0..<?n - 1] @ [S0],
                   map (AS_loop ?us ?b 1) [0..<?n - 1] @ [S1],
                   map (AS_loop ?us ?b 2) [0..<?n - 1] @ [Fin 0],
                   map (AS_loop ?us ?b 3) [0..<?n - 1] @ [Fin 0]],
             NegativePart = (S1 < Fin 0),
             xNegative = (if S1 < Fin 0 then - S0 / S1 else x0) \<rparr>"
    using n by (simp add: CubicSpline_ctor_def Let_def upt_4 S0_def S1_def L_def v_def)
  with assms have self: "self =
      \<lparr> nKnots = ?n, factorial = [1, 1, 2, 6], u = ?us,
             AS = [map (AS_loop ?us ?b 0) [0..<?n - 1] @ [S0],
                   map (AS_loop ?us ?b 1) [0..<?n - 1] @ [S1],
                   map (AS_loop ?us ?b 2) [0..<?n - 1] @ [Fin 0],
                   map (AS_loop ?us ?b 3) [0..<?n - 1] @ [Fin 0]],
             NegativePart = (S1 < Fin 0),
             xNegative = (if S1 < Fin 0 then - S0 / S1 else x0) \<rparr>"
    by simp
  have c: "AS self ! 0 ! (nKnots self - 1) = S0" "AS self ! 1 ! (nKnots self - 1) = S1"
    by (simp_all add: self nth_append)
  show "NegativePart self = (AS self ! 1 ! (nKnots self - 1) < Fin 0)"
    unfolding c by (simp add: self)
  show "xNegative self =
           (if AS self ! 1 ! (nKnots self - 1) < Fin 0
            then - AS self ! 0 ! (nKnots self - 1) / AS self ! 1 ! (nKnots self - 1)
            else x0)"
    unfolding c by (simp add: self)
qed

lemma negative_slope_eventually_negative:
  assumes "AS self ! 1 ! (nKnots self - 1) < Fin 0"
    and "is_Fin (AS self ! 0 ! (nKnots self - 1))" "is_Fin (AS self ! 1 ! (nKnots self - 1))"
  shows "eventually_negative self"
proof -
  obtain p0 where p0: "AS self ! 0 ! (nKnots self - 1) = Fin p0"
    using assms(2) by (cases "AS self ! 0 ! (nKnots self - 1)") simp_all
  obtain p1 where p1: "AS self ! 1 ! (nKnots self - 1) = Fin p1"
    using assms(3) by (cases "AS self ! 1 ! (nKnots self - 1)") simp_all
  have neg: "p1 < 0" using assms(1) unfolding p1 by simp
  have "\<forall>t. - p0 / p1 < t \<longrightarrow> extrapolation self t < Fin 0"
    unfolding extrapolation_def p0 p1 using line_eventually_negative [OF neg, of p0] by simp
  then show ?thesis
    unfolding eventually_negative_def by blast
qed

text \<open>
  The spline on the knots 0 and 1 with the four coefficients - 1: the constant \<open>- 1\<close> on the
  first interval and after the last knot.
\<close>

lemma flat_example_loop:
  "AS_loop [Fin 0, Fin 0, Fin 0, Fin 0, Fin 1, Fin 1, Fin 1, Fin 1]
     [Fin (- 1), Fin (- 1), Fin (- 1), Fin (- 1)] 0 0 = Fin (- 1)"
  "AS_loop [Fin 0, Fin 0, Fin 0, Fin 0, Fin 1, Fin 1, Fin 1, Fin 1]
     [Fin (- 1), Fin (- 1), Fin (- 1), Fin (- 1)] 1 0 = Fin 0"
  "AS_loop [Fin 0, Fin 0, Fin 0, Fin 0, Fin 1, Fin 1, Fin 1, Fin 1]
     [Fin (- 1), Fin (- 1), Fin (- 1), Fin (- 1)] 2 0 = Fin 0"
  "AS_loop [Fin 0, Fin 0, Fin 0, Fin 0, Fin 1, Fin 1, Fin 1, Fin 1]
     [Fin (- 1), Fin (- 1), Fin (- 1), Fin (- 1)] 3 0 = Fin 0"
  by (simp_all add: AS_loop_def a_deg_def a0_def a1_def a2_def a3_def example_prefactors
        snap_small_def)

lemma flat_example_spline:
  "CubicSpline_ctor [Fin 0, Fin 1] [Fin (- 1), Fin (- 1), Fin (- 1), Fin (- 1)] (Fin 0) =
     Some \<lparr> nKnots = 2, factorial = [1, 1, 2, 6],
            u = [Fin 0, Fin 0, Fin 0, Fin 0, Fin 1, Fin 1, Fin 1, Fin 1],
            AS = [[Fin (- 1), Fin (- 1)], [Fin 0, Fin 0], [Fin 0, Fin 0], [Fin 0, Fin 0]],
            NegativePart = False, xNegative = Fin 0 \<rparr>"
  by (simp add: CubicSpline_ctor_def Let_def knot_vector_def upt_4 flat_example_loop
        flat_example_loop(2) [unfolded One_nat_def])

text \<open>
  C6, as the code has it. In an instance the constructor has made, \<open>NegativePart\<close> is true if
  and only if the stored slope \<^verbatim>\<open>AS[1][nKnots-1]\<close> of the linear piece after the last knot is
  below zero. When the flag is true, \<open>xNegative\<close> is the quotient
  \<^verbatim>\<open>-AS[0][nKnots-1]/AS[1][nKnots-1]\<close> as the constructor computes it, and, for finite stored
  coefficients, the linear piece is eventually negative. A linear piece of slope zero and
  negative value is eventually negative too, and the flag is false for it.
\<close>

theorem negative_part_flag:
  assumes "CubicSpline_ctor knots SplineCoefficients x0 = Some self"
  shows "(NegativePart self \<longleftrightarrow> AS self ! 1 ! (nKnots self - 1) < Fin 0) \<and>
         (NegativePart self \<longrightarrow>
            xNegative self =
              - AS self ! 0 ! (nKnots self - 1) / AS self ! 1 ! (nKnots self - 1)) \<and>
         (NegativePart self \<and> is_Fin (AS self ! 0 ! (nKnots self - 1)) \<and>
            is_Fin (AS self ! 1 ! (nKnots self - 1)) \<longrightarrow> eventually_negative self)"
  using ctor_last_interval [OF assms] negative_slope_eventually_negative [of self]
  by auto

theorem negative_part_flag_witness:
  "NegativePart (the (CubicSpline_ctor [Fin 0, Fin 1] [Fin 1, Fin 1, Fin 1, Fin 0] (Fin 0))) \<and>
   AS (the (CubicSpline_ctor [Fin 0, Fin 1] [Fin 1, Fin 1, Fin 1, Fin 0] (Fin 0))) ! 1 ! 1
     = Fin (- 3) \<and>
   xNegative (the (CubicSpline_ctor [Fin 0, Fin 1] [Fin 1, Fin 1, Fin 1, Fin 0] (Fin 0))) = Fin 1 \<and>
   eventually_negative
     (the (CubicSpline_ctor [Fin 0, Fin 1] [Fin 1, Fin 1, Fin 1, Fin 0] (Fin 0)))"
  using negative_part_flag [OF example_spline]
  by (simp add: example_spline)

text \<open>
  C6 as stated fails: for the knots 0 and 1 and the four coefficients - 1 the linear piece after
  the last knot is the constant \<open>- 1\<close>, negative at every time, and \<open>NegativePart\<close> is false.
\<close>

theorem flat_negative_extrapolation_unflagged:
  "eventually_negative
     (the (CubicSpline_ctor [Fin 0, Fin 1] [Fin (- 1), Fin (- 1), Fin (- 1), Fin (- 1)] (Fin 0))) \<and>
   \<not> NegativePart
     (the (CubicSpline_ctor [Fin 0, Fin 1] [Fin (- 1), Fin (- 1), Fin (- 1), Fin (- 1)] (Fin 0)))"
  by (simp add: flat_example_spline eventually_negative_def extrapolation_def)

end
